theory Spec2Isabelle
  imports Main "HOL-Library.Word" "HOL-Library.Char_ord" "HOL-Library.List_Lexorder"
begin

unbundle bit_operations_syntax

section \<open>The write side of the file format: \<open>src/parquet/file_writer.cc\<close>\<close>

text \<open>
  The development embeds the three classes of \<open>file_writer.cc\<close>
  (\<open>RowGroupSerializer\<close>, \<open>FileSerializer\<close>, \<open>ZdbFileSerializer\<close>) and the two
  public wrappers (\<open>RowGroupWriter\<close>, \<open>ParquetFileWriter\<close>) as state-passing
  functions. A member function that may throw returns the exception (if any) together with
  the object as the throw left it, because every assignment made before a C++ exception
  leaves the function stays in effect.

  The counters that the writer itself advances (\<open>int64_t\<close> and \<open>int\<close>) are unbounded
  integers. The row counts of two footers, which the append merge adds, are values read
  from a file: that addition is the 64-bit addition \<open>int64_add\<close>. The footer length is
  unsigned (\<open>uint32_t\<close>); it is a 32-bit word and wraps.
\<close>

subsection \<open>Exceptions\<close>

text \<open>
  \<open>ParquetException\<close> is the only exception \<open>file_writer.cc\<close> throws itself (with the
  message it streams together). \<open>SchemaError\<close>, \<open>IncompleteRowGroupError\<close> and
  \<open>IOError\<close> are raised by collaborators declared in other files and are named as in the
  error taxonomy of the specification. \<open>NullDereference\<close> is not an exception: it marks
  the dereference of a null smart pointer, which C++ leaves undefined and which no
  \<open>catch\<close> clause intercepts.
\<close>

datatype error =
    ParquetException string
  | SchemaError
  | IncompleteRowGroupError
  | IOError
  | NullDereference

type_synonym 's outcome = "error option \<times> 's"

definition and_then :: "'s outcome \<Rightarrow> ('s \<Rightarrow> 's outcome) \<Rightarrow> 's outcome" where
  "and_then r f = (case r of (None, s) \<Rightarrow> f s | (Some e, s) \<Rightarrow> (Some e, s))"

text \<open>\<open>try { body } catch (...) { }\<close>: every exception is discarded, undefined behaviour is not.\<close>

definition try_catch_all :: "'s outcome \<Rightarrow> 's outcome" where
  "try_catch_all r =
     (case r of
        (Some NullDereference, s) \<Rightarrow> (Some NullDereference, s)
      | (_, s) \<Rightarrow> (None, s))"

subsection \<open>Bytes and the output sink\<close>

type_synonym u8 = "8 word"
type_synonym u32 = "32 word"

text \<open>\<open>PARQUET_MAGIC[4] = {'P', 'A', 'R', '1'}\<close> (line 34).\<close>

definition PARQUET_MAGIC :: "u8 list" where
  "PARQUET_MAGIC = [0x50, 0x41, 0x52, 0x31]"

text \<open>
  The four bytes that \<open>reinterpret_cast<uint8_t*>(&metadata_len)\<close> exposes (lines 249, 325):
  the object representation of a \<open>uint32_t\<close>, least significant byte first, as on the
  little-endian hosts the format's length field is defined for.
\<close>

definition uint32_bytes :: "u32 \<Rightarrow> u8 list" where
  "uint32_bytes w = [ucast w, ucast (drop_bit 8 w), ucast (drop_bit 16 w), ucast (drop_bit 24 w)]"

text \<open>
  Modelled from the spec: the class \<open>OutputStream\<close> is declared outside
  \<open>file_writer.cc\<close>. The specification gives its contract: \<open>Write(bytes)\<close>, \<open>Tell()\<close> and
  \<open>Close()\<close>, sequential append-only writes, a non-decreasing \<open>Tell()\<close>, and \<open>IOError\<close>
  for any failure. The sink holds the bytes written so far; \<open>Tell\<close> is their number. A
  write fails, writing nothing, on a closed sink or when the bytes do not fit the room the
  sink has left (\<open>None\<close>: no limit). The file writer owns the sink exclusively
  (specification, section 5), so the serializer record below holds the sink itself where
  the class holds a shared pointer to it.
\<close>

record Sink =
  sink_data :: "u8 list"
  sink_closed :: bool
  sink_room :: "nat option"

definition Sink_Write :: "u8 list \<Rightarrow> Sink \<Rightarrow> Sink outcome" where
  "Sink_Write bs s =
     (if sink_closed s then (Some IOError, s)
      else case sink_room s of
             None \<Rightarrow> (None, s\<lparr>sink_data := sink_data s @ bs\<rparr>)
           | Some r \<Rightarrow>
               if length bs \<le> r
               then (None, s\<lparr>sink_data := sink_data s @ bs, sink_room := Some (r - length bs)\<rparr>)
               else (Some IOError, s))"

definition Sink_Tell :: "Sink \<Rightarrow> int" where
  "Sink_Tell s = int (length (sink_data s))"

definition Sink_Close :: "Sink \<Rightarrow> Sink outcome" where
  "Sink_Close s = (None, s\<lparr>sink_closed := True\<rparr>)"

subsection \<open>Footer data (the Thrift structures)\<close>

text \<open>
  Modelled from the spec: the Thrift structures \<open>format::KeyValue\<close>,
  \<open>format::RowGroup\<close> and \<open>format::FileMetaData\<close> are generated code outside
  \<open>file_writer.cc\<close>. \<open>KeyValue\<close> and \<open>FileMetaData\<close> have the members that lines
  278--317 read and write. \<open>RowGroup\<close> holds what the specification lists for a row
  group: its column chunks, its byte size and its row count; a column chunk is represented
  by the extra key-value metadata handed to \<open>NextColumn\<close> for it.
\<close>

record KeyValue =
  kv_key :: string
  kv_value :: string
  kv_isset_value :: bool

type_synonym ColumnChunk = "(string \<times> string) list"

record RowGroup =
  rowgroup_columns :: "ColumnChunk list"
  rowgroup_total_byte_size :: int
  rowgroup_num_rows :: int

record FileMetaData =
  fm_row_groups :: "RowGroup list"
  fm_num_rows :: int
  fm_key_value_metadata :: "KeyValue list"
  fm_isset_key_value_metadata :: bool

subsection \<open>\<open>ZdbFileSerializer::WriteMetaData\<close>: merging the old footer (lines 278--319)\<close>

text \<open>
  \<open>std::map<std::string, std::string> kv_meta\<close> is a list of pairs, strictly ascending in
  the key. \<open>std::inserter(kv_meta, ...)\<close> assigns through \<open>kv_meta.insert(hint, pair)\<close>,
  which leaves the map as it is when the key is already present.
\<close>

fun map_insert :: "string \<times> string \<Rightarrow> (string \<times> string) list \<Rightarrow> (string \<times> string) list" where
  "map_insert (k, v) [] = [(k, v)]"
| "map_insert (k, v) ((k', v') # m) =
     (if k = k' then (k', v') # m
      else if k < k' then (k, v) # (k', v') # m
      else (k', v') # map_insert (k, v) m)"

text \<open>One \<open>std::transform\<close> of a \<open>KeyValue\<close> list into the map (lines 288--299).\<close>

definition transform_into :: "KeyValue list \<Rightarrow> (string \<times> string) list \<Rightarrow> (string \<times> string) list" where
  "transform_into kvs m = foldl (\<lambda>m kv. map_insert (kv_key kv, kv_value kv) m) m kvs"

text \<open>The \<open>std::transform\<close> back into a \<open>KeyValue\<close> list (lines 303--311).\<close>

definition key_values_of :: "(string \<times> string) list \<Rightarrow> KeyValue list" where
  "key_values_of m = map (\<lambda>(k, v). \<lparr>kv_key = k, kv_value = v, kv_isset_value = True\<rparr>) m"

text \<open>
  \<open>a += b\<close> on two \<open>int64_t\<close> values (line 284): the sum in 64-bit two's complement,
  which is what the addition instruction leaves when the sum is out of range (the C++
  standard leaves that case undefined).
\<close>

definition int64_add :: "int \<Rightarrow> int \<Rightarrow> int" where
  "int64_add a b = sint (word_of_int a + word_of_int b :: 64 word)"

text \<open>
  Lines 281--319: \<open>metadata_target\<close> is the footer that \<open>metadata_->Finish()\<close> produced for
  this run, \<open>metadata_old\<close> the footer of the old file; the result is the structure
  handed to \<open>FileMetaData::Make\<close>.
\<close>

definition merge_metadata :: "FileMetaData \<Rightarrow> FileMetaData \<Rightarrow> FileMetaData" where
  "merge_metadata metadata_old metadata_target =
     (let kv_meta = transform_into (fm_key_value_metadata metadata_old) [];
          kv_meta = transform_into (fm_key_value_metadata metadata_target) kv_meta;
          key_value_metadata = key_values_of kv_meta
      in metadata_target
           \<lparr>fm_row_groups := fm_row_groups metadata_old @ fm_row_groups metadata_target,
            fm_num_rows := int64_add (fm_num_rows metadata_target) (fm_num_rows metadata_old),
            fm_key_value_metadata := key_value_metadata,
            fm_isset_key_value_metadata := (key_value_metadata \<noteq> [])\<rparr>)"

text \<open>The mapping a \<open>KeyValue\<close> list denotes: the value of the first entry with the key.\<close>

definition mapping_of :: "KeyValue list \<Rightarrow> (string \<rightharpoonup> string)" where
  "mapping_of kvs = map_of (map (\<lambda>kv. (kv_key kv, kv_value kv)) kvs)"

subsection \<open>Collaborators of the row group writer\<close>

text \<open>
  Modelled from the spec: the class \<open>ColumnWriter\<close> is declared in \<open>column_writer.h\<close>.
  The specification describes the column write session as a handle that accepts batches of
  values and reports, on close, the rows and the bytes written. \<open>ColumnWriter_WriteBatch\<close>
  stands for what the caller does through the pointer that \<open>NextColumn\<close> returns.
\<close>

record ColumnWriter =
  cw_rows_written :: int
  cw_total_bytes :: int

definition ColumnWriter_Make :: ColumnWriter where
  "ColumnWriter_Make = \<lparr>cw_rows_written = 0, cw_total_bytes = 0\<rparr>"

definition ColumnWriter_WriteBatch :: "nat \<Rightarrow> nat \<Rightarrow> ColumnWriter \<Rightarrow> ColumnWriter" where
  "ColumnWriter_WriteBatch rows bytes cw =
     cw\<lparr>cw_rows_written := cw_rows_written cw + int rows,
        cw_total_bytes := cw_total_bytes cw + int bytes\<rparr>"

definition ColumnWriter_rows_written :: "ColumnWriter \<Rightarrow> int" where
  "ColumnWriter_rows_written cw = cw_rows_written cw"

definition ColumnWriter_Close :: "ColumnWriter \<Rightarrow> int" where
  "ColumnWriter_Close cw = cw_total_bytes cw"

text \<open>
  Modelled from the spec: the class \<open>RowGroupMetaDataBuilder\<close> is declared in
  \<open>metadata.h\<close>. The specification gives its contract: it holds the column-chunk
  descriptors, filled in schema order, and the agreed row count of the group;
  \<open>NextColumnChunk\<close> fails once a descriptor has been handed out for every column of the
  schema; \<open>set_num_rows\<close> records the row count; \<open>Finish(total_bytes)\<close> fails if fewer
  descriptors were filled than the schema declares columns.
\<close>

record RowGroupMetaDataBuilder =
  mb_row_group :: RowGroup
  mb_num_columns :: int
  mb_current_column :: int

definition RowGroupMetaDataBuilder_Make :: "int \<Rightarrow> RowGroupMetaDataBuilder" where
  "RowGroupMetaDataBuilder_Make schema_columns =
     \<lparr>mb_row_group = \<lparr>rowgroup_columns = [], rowgroup_total_byte_size = 0, rowgroup_num_rows = 0\<rparr>,
      mb_num_columns = schema_columns,
      mb_current_column = 0\<rparr>"

definition RowGroupMetaDataBuilder_NextColumnChunk ::
  "ColumnChunk \<Rightarrow> RowGroupMetaDataBuilder \<Rightarrow> RowGroupMetaDataBuilder outcome" where
  "RowGroupMetaDataBuilder_NextColumnChunk meta b =
     (if mb_current_column b < mb_num_columns b
      then (None, b\<lparr>mb_row_group := (mb_row_group b)
                        \<lparr>rowgroup_columns := rowgroup_columns (mb_row_group b) @ [meta]\<rparr>,
                     mb_current_column := mb_current_column b + 1\<rparr>)
      else (Some SchemaError, b))"

definition RowGroupMetaDataBuilder_set_num_rows ::
  "int \<Rightarrow> RowGroupMetaDataBuilder \<Rightarrow> RowGroupMetaDataBuilder" where
  "RowGroupMetaDataBuilder_set_num_rows n b =
     b\<lparr>mb_row_group := (mb_row_group b)\<lparr>rowgroup_num_rows := n\<rparr>\<rparr>"

definition RowGroupMetaDataBuilder_Finish ::
  "int \<Rightarrow> RowGroupMetaDataBuilder \<Rightarrow> RowGroupMetaDataBuilder outcome" where
  "RowGroupMetaDataBuilder_Finish total_bytes_written b =
     (if mb_current_column b < mb_num_columns b then (Some IncompleteRowGroupError, b)
      else (None, b\<lparr>mb_row_group := (mb_row_group b)
                        \<lparr>rowgroup_total_byte_size := total_bytes_written\<rparr>\<rparr>))"

subsection \<open>Rendering the exception message\<close>

text \<open>\<open>ss << n\<close> for an integer \<open>n\<close>: its decimal digits, with a minus sign if negative.\<close>

fun decimal :: "nat \<Rightarrow> string" where
  "decimal n =
     (if n < 10 then [''0123456789'' ! n]
      else decimal (n div 10) @ [''0123456789'' ! (n mod 10)])"

declare decimal.simps [simp del]

definition show_int :: "int \<Rightarrow> string" where
  "show_int i = (if i < 0 then CHR ''-'' # decimal (nat (- i)) else decimal (nat i))"

subsection \<open>\<open>RowGroupSerializer\<close> (lines 62--145)\<close>

text \<open>
  \<open>rg_metadata\<close> is the row-group slot that the pointer \<open>metadata_\<close> refers to. The slot
  belongs to the file-level builder; only the one live serializer writes to it, and the
  model returns it to the builder when the serializer is destroyed. \<open>sink_\<close> and
  \<open>properties_\<close> are only passed on to the page writer.
\<close>

record RowGroupSerializer =
  rg_metadata :: RowGroupMetaDataBuilder
  rg_total_bytes_written :: int
  rg_closed :: bool
  rg_current_column_index :: int
  rg_num_rows :: int
  rg_current_column_writer :: "ColumnWriter option"

text \<open>The constructor (lines 64--72).\<close>

definition RowGroupSerializer_Make :: "RowGroupMetaDataBuilder \<Rightarrow> RowGroupSerializer" where
  "RowGroupSerializer_Make metadata =
     \<lparr>rg_metadata = metadata,
      rg_total_bytes_written = 0,
      rg_closed = False,
      rg_current_column_index = 0,
      rg_num_rows = - 1,
      rg_current_column_writer = None\<rparr>"

text \<open>The message streamed together at lines 137--139.\<close>

definition rows_message :: "int \<Rightarrow> int \<Rightarrow> int \<Rightarrow> string" where
  "rows_message current_column_index current_rows num_rows =
     ''Column '' @ show_int current_column_index @ '' had '' @ show_int current_rows
       @ '' while previous column had '' @ show_int num_rows"

text \<open>
  \<open>CheckRowsWritten\<close> (lines 131--142). Every caller tests \<open>current_column_writer_\<close>
  first; without a column writer line 132 dereferences a null pointer.
\<close>

definition RowGroupSerializer_CheckRowsWritten :: "RowGroupSerializer \<Rightarrow> RowGroupSerializer outcome" where
  "RowGroupSerializer_CheckRowsWritten rg =
     (case rg_current_column_writer rg of
        None \<Rightarrow> (Some NullDereference, rg)
      | Some cw \<Rightarrow>
          let current_rows = ColumnWriter_rows_written cw in
          if rg_num_rows rg < 0
          then (None, rg\<lparr>rg_num_rows := current_rows,
                         rg_metadata := RowGroupMetaDataBuilder_set_num_rows current_rows (rg_metadata rg)\<rparr>)
          else if rg_num_rows rg \<noteq> current_rows
          then (Some (ParquetException
                  (rows_message (rg_current_column_index rg) current_rows (rg_num_rows rg))), rg)
          else (None, rg))"

text \<open>\<open>if (current_column_writer_) { CheckRowsWritten(); }\<close> (lines 77, 84, 111).\<close>

definition check_open_column :: "RowGroupSerializer \<Rightarrow> RowGroupSerializer outcome" where
  "check_open_column rg =
     (if rg_current_column_writer rg \<noteq> None then RowGroupSerializer_CheckRowsWritten rg
      else (None, rg))"

definition RowGroupSerializer_num_columns :: "RowGroupSerializer \<Rightarrow> int" where
  "RowGroupSerializer_num_columns rg = mb_num_columns (rg_metadata rg)"

definition RowGroupSerializer_current_column :: "RowGroupSerializer \<Rightarrow> int" where
  "RowGroupSerializer_current_column rg = mb_current_column (rg_metadata rg)"

text \<open>
  \<open>num_rows\<close> (lines 76--81): the value returned, or the exception, and the serializer
  afterwards (\<open>num_rows_\<close> and \<open>metadata_\<close> are \<open>mutable\<close>).
\<close>

definition RowGroupSerializer_num_rows :: "RowGroupSerializer \<Rightarrow> (error + int) \<times> RowGroupSerializer" where
  "RowGroupSerializer_num_rows rg =
     (case check_open_column rg of
        (Some e, rg') \<Rightarrow> (Inl e, rg')
      | (None, rg') \<Rightarrow> (Inr (if rg_num_rows rg' < 0 then 0 else rg_num_rows rg'), rg'))"

text \<open>\<open>NextColumn\<close> (lines 83--103).\<close>

definition RowGroupSerializer_NextColumn :: "ColumnChunk \<Rightarrow> RowGroupSerializer \<Rightarrow> RowGroupSerializer outcome" where
  "RowGroupSerializer_NextColumn meta rg =
     and_then (check_open_column rg) (\<lambda>rg.
       case RowGroupMetaDataBuilder_NextColumnChunk meta (rg_metadata rg) of
         (Some e, b) \<Rightarrow> (Some e, rg\<lparr>rg_metadata := b\<rparr>)
       | (None, b) \<Rightarrow>
           let rg = rg\<lparr>rg_metadata := b\<rparr>;
               rg = (case rg_current_column_writer rg of
                       None \<Rightarrow> rg
                     | Some cw \<Rightarrow> rg\<lparr>rg_total_bytes_written :=
                                       rg_total_bytes_written rg + ColumnWriter_Close cw\<rparr>);
               rg = rg\<lparr>rg_current_column_index := rg_current_column_index rg + 1\<rparr>
           in (None, rg\<lparr>rg_current_column_writer := Some ColumnWriter_Make\<rparr>))"

text \<open>\<open>Close\<close> (lines 107--120).\<close>

definition RowGroupSerializer_Close :: "RowGroupSerializer \<Rightarrow> RowGroupSerializer outcome" where
  "RowGroupSerializer_Close rg =
     (if \<not> rg_closed rg then
        let rg = rg\<lparr>rg_closed := True\<rparr> in
        and_then
          (case rg_current_column_writer rg of
             None \<Rightarrow> (None, rg)
           | Some cw \<Rightarrow>
               and_then (RowGroupSerializer_CheckRowsWritten rg) (\<lambda>rg.
                 (None, rg\<lparr>rg_total_bytes_written := rg_total_bytes_written rg + ColumnWriter_Close cw,
                           rg_current_column_writer := None\<rparr>)))
          (\<lambda>rg. case RowGroupMetaDataBuilder_Finish (rg_total_bytes_written rg) (rg_metadata rg) of
                   (e, b) \<Rightarrow> (e, rg\<lparr>rg_metadata := b\<rparr>))
      else (None, rg))"

text \<open>
  Writing through the \<open>ColumnWriter*\<close> that \<open>NextColumn\<close> returned: the batch goes to the
  column writer the serializer currently holds.
\<close>

definition write_batch :: "nat \<Rightarrow> nat \<Rightarrow> RowGroupSerializer \<Rightarrow> RowGroupSerializer" where
  "write_batch rows bytes rg =
     rg\<lparr>rg_current_column_writer :=
          map_option (ColumnWriter_WriteBatch rows bytes) (rg_current_column_writer rg)\<rparr>"

subsection \<open>\<open>RowGroupWriter\<close> (lines 39--56)\<close>

record RowGroupWriter =
  rgw_contents :: "RowGroupSerializer option"

definition RowGroupWriter_Make :: "RowGroupSerializer \<Rightarrow> RowGroupWriter" where
  "RowGroupWriter_Make contents = \<lparr>rgw_contents = Some contents\<rparr>"

definition RowGroupWriter_Close :: "RowGroupWriter \<Rightarrow> RowGroupWriter outcome" where
  "RowGroupWriter_Close w =
     (case rgw_contents w of
        None \<Rightarrow> (None, w)
      | Some c \<Rightarrow> (case RowGroupSerializer_Close c of (e, c') \<Rightarrow> (e, w\<lparr>rgw_contents := Some c'\<rparr>)))"

definition RowGroupWriter_NextColumn :: "ColumnChunk \<Rightarrow> RowGroupWriter \<Rightarrow> RowGroupWriter outcome" where
  "RowGroupWriter_NextColumn meta w =
     (case rgw_contents w of
        None \<Rightarrow> (Some NullDereference, w)
      | Some c \<Rightarrow> (case RowGroupSerializer_NextColumn meta c of
                     (e, c') \<Rightarrow> (e, w\<lparr>rgw_contents := Some c'\<rparr>)))"

definition RowGroupWriter_num_rows :: "RowGroupWriter \<Rightarrow> (error + int) \<times> RowGroupWriter" where
  "RowGroupWriter_num_rows w =
     (case rgw_contents w of
        None \<Rightarrow> (Inl NullDereference, w)
      | Some c \<Rightarrow> (case RowGroupSerializer_num_rows c of
                     (r, c') \<Rightarrow> (r, w\<lparr>rgw_contents := Some c'\<rparr>)))"

text \<open>The caller writing a batch through the row group writer's current column.\<close>

definition RowGroupWriter_write_batch :: "nat \<Rightarrow> nat \<Rightarrow> RowGroupWriter \<Rightarrow> RowGroupWriter outcome" where
  "RowGroupWriter_write_batch rows bytes w =
     (case rgw_contents w of
        None \<Rightarrow> (Some NullDereference, w)
      | Some c \<Rightarrow>
          if rg_current_column_writer c = None then (Some NullDereference, w)
          else (None, w\<lparr>rgw_contents := Some (write_batch rows bytes c)\<rparr>))"

subsection \<open>The file-level metadata builder\<close>

text \<open>
  Modelled from the spec: the class \<open>FileMetaDataBuilder\<close> is declared in \<open>metadata.h\<close>.
  The specification gives its contract: it holds the schema, the optional key-value side
  metadata and the ordered sequence of row-group slots; \<open>AppendRowGroup\<close> yields a fresh
  slot; \<open>Finish\<close> produces the footer, which carries the row groups in order, the total
  row count and the side metadata. The total is the sum of the row counts recorded in the
  slots. \<open>fmb_row_groups\<close> holds the slots whose serializer has been destroyed; the slot
  of the live serializer is \<open>rg_metadata\<close> and joins them through
  \<open>FileMetaDataBuilder_return_slot\<close>.
\<close>

record FileMetaDataBuilder =
  fmb_num_columns :: int
  fmb_key_value_metadata :: "(string \<times> string) list option"
  fmb_row_groups :: "RowGroup list"

definition FileMetaDataBuilder_Make :: "int \<Rightarrow> (string \<times> string) list option \<Rightarrow> FileMetaDataBuilder" where
  "FileMetaDataBuilder_Make schema_columns key_value_metadata =
     \<lparr>fmb_num_columns = schema_columns,
      fmb_key_value_metadata = key_value_metadata,
      fmb_row_groups = []\<rparr>"

definition FileMetaDataBuilder_AppendRowGroup :: "FileMetaDataBuilder \<Rightarrow> RowGroupMetaDataBuilder" where
  "FileMetaDataBuilder_AppendRowGroup b = RowGroupMetaDataBuilder_Make (fmb_num_columns b)"

definition FileMetaDataBuilder_return_slot ::
  "RowGroupMetaDataBuilder \<Rightarrow> FileMetaDataBuilder \<Rightarrow> FileMetaDataBuilder" where
  "FileMetaDataBuilder_return_slot slot b = b\<lparr>fmb_row_groups := fmb_row_groups b @ [mb_row_group slot]\<rparr>"

definition FileMetaDataBuilder_Finish :: "FileMetaDataBuilder \<Rightarrow> FileMetaData" where
  "FileMetaDataBuilder_Finish b =
     \<lparr>fm_row_groups = fmb_row_groups b,
      fm_num_rows = sum_list (map rowgroup_num_rows (fmb_row_groups b)),
      fm_key_value_metadata =
        (case fmb_key_value_metadata b of None \<Rightarrow> [] | Some kvs \<Rightarrow> key_values_of kvs),
      fm_isset_key_value_metadata = (fmb_key_value_metadata b \<noteq> None)\<rparr>"

subsection \<open>\<open>FileSerializer\<close> and \<open>ZdbFileSerializer\<close> (lines 153--343)\<close>

text \<open>
  One record serves both classes. \<open>fs_class\<close> is the dynamic type, which selects the
  \<open>WriteMetaData\<close> that a virtual call reaches; \<open>fs_old_file_meta\<close> is the member that
  \<open>ZdbFileSerializer\<close> adds (\<open>None\<close>: a null pointer). The schema is represented by its
  number of leaf columns. The function \<open>serialize\<close> stands for the Thrift encoding that
  \<open>FileMetaData::WriteTo\<close> writes to the sink.
\<close>

datatype serializer_class = FileSerializer_class | ZdbFileSerializer_class

record FileSerializer =
  fs_class :: serializer_class
  fs_sink :: Sink
  fs_is_open :: bool
  fs_num_row_groups :: int
  fs_num_rows :: int
  fs_metadata :: FileMetaDataBuilder
  fs_row_group_writer :: "RowGroupWriter option"
  fs_old_file_meta :: "FileMetaData option"

text \<open>\<open>sink_->Write(bytes)\<close> on the serializer's sink.\<close>

definition sink_write :: "u8 list \<Rightarrow> FileSerializer \<Rightarrow> FileSerializer outcome" where
  "sink_write bs fs = (case Sink_Write bs (fs_sink fs) of (e, s) \<Rightarrow> (e, fs\<lparr>fs_sink := s\<rparr>))"

text \<open>\<open>StartFile\<close> (lines 234--237).\<close>

definition FileSerializer_StartFile :: "FileSerializer \<Rightarrow> FileSerializer outcome" where
  "FileSerializer_StartFile fs = sink_write PARQUET_MAGIC fs"

text \<open>
  The constructor (lines 212--224). With an exception, the second component is the
  partially constructed object, which C++ then discards.
\<close>

definition FileSerializer_Make ::
  "Sink \<Rightarrow> int \<Rightarrow> (string \<times> string) list option \<Rightarrow> FileSerializer outcome" where
  "FileSerializer_Make sink schema_columns key_value_metadata =
     FileSerializer_StartFile
       \<lparr>fs_class = FileSerializer_class,
        fs_sink = sink,
        fs_is_open = True,
        fs_num_row_groups = 0,
        fs_num_rows = 0,
        fs_metadata = FileMetaDataBuilder_Make schema_columns key_value_metadata,
        fs_row_group_writer = None,
        fs_old_file_meta = None\<rparr>"

text \<open>\<open>FileSerializer::WriteMetaData\<close> (lines 239--251).\<close>

definition FileSerializer_WriteMetaData ::
  "(FileMetaData \<Rightarrow> u8 list) \<Rightarrow> FileSerializer \<Rightarrow> FileSerializer outcome" where
  "FileSerializer_WriteMetaData serialize fs =
     (let metadata_len = (word_of_int (Sink_Tell (fs_sink fs)) :: u32);
          metadata = FileMetaDataBuilder_Finish (fs_metadata fs)
      in and_then (sink_write (serialize metadata) fs) (\<lambda>fs.
           let metadata_len = word_of_int (Sink_Tell (fs_sink fs)) - metadata_len in
           and_then (sink_write (uint32_bytes metadata_len) fs) (\<lambda>fs.
             sink_write PARQUET_MAGIC fs)))"

text \<open>\<open>ZdbFileSerializer::WriteMetaData\<close> (lines 270--327).\<close>

definition ZdbFileSerializer_WriteMetaData ::
  "(FileMetaData \<Rightarrow> u8 list) \<Rightarrow> FileSerializer \<Rightarrow> FileSerializer outcome" where
  "ZdbFileSerializer_WriteMetaData serialize fs =
     (let metadata_len = (word_of_int (Sink_Tell (fs_sink fs)) :: u32);
          metadata_target = FileMetaDataBuilder_Finish (fs_metadata fs)
      in case fs_old_file_meta fs of
           None \<Rightarrow> (Some NullDereference, fs)
         | Some metadata_old \<Rightarrow>
             let new_meta = merge_metadata metadata_old metadata_target in
             and_then (sink_write (serialize new_meta) fs) (\<lambda>fs.
               let metadata_len = word_of_int (Sink_Tell (fs_sink fs)) - metadata_len in
               and_then (sink_write (uint32_bytes metadata_len) fs) (\<lambda>fs.
                 sink_write PARQUET_MAGIC fs)))"

text \<open>The virtual call \<open>WriteMetaData()\<close>.\<close>

definition WriteMetaData :: "(FileMetaData \<Rightarrow> u8 list) \<Rightarrow> FileSerializer \<Rightarrow> FileSerializer outcome" where
  "WriteMetaData serialize fs =
     (case fs_class fs of
        FileSerializer_class \<Rightarrow> FileSerializer_WriteMetaData serialize fs
      | ZdbFileSerializer_class \<Rightarrow> ZdbFileSerializer_WriteMetaData serialize fs)"

text \<open>
  \<open>row_group_writer_.reset(...)\<close> destroys the row group writer and its serializer; the
  slot the serializer filled stays with the builder.
\<close>

definition reset_row_group_writer :: "RowGroupWriter option \<Rightarrow> FileSerializer \<Rightarrow> FileSerializer" where
  "reset_row_group_writer new fs =
     (let metadata =
            (case fs_row_group_writer fs of
               None \<Rightarrow> fs_metadata fs
             | Some w \<Rightarrow>
                 (case rgw_contents w of
                    None \<Rightarrow> fs_metadata fs
                  | Some c \<Rightarrow> FileMetaDataBuilder_return_slot (rg_metadata c) (fs_metadata fs)))
      in fs\<lparr>fs_metadata := metadata, fs_row_group_writer := new\<rparr>)"

text \<open>
  \<open>Close\<close> (lines 165--179); \<open>close_last_row_group\<close> is the statement at lines
  167--170.
\<close>

definition close_last_row_group :: "FileSerializer \<Rightarrow> FileSerializer outcome" where
  "close_last_row_group fs =
     (case fs_row_group_writer fs of
        None \<Rightarrow> (None, fs)
      | Some w \<Rightarrow>
          (case RowGroupWriter_num_rows w of
             (Inl e, w) \<Rightarrow> (Some e, fs\<lparr>fs_row_group_writer := Some w\<rparr>)
           | (Inr n, w) \<Rightarrow>
               let fs = fs\<lparr>fs_num_rows := fs_num_rows fs + n\<rparr> in
               (case RowGroupWriter_Close w of
                  (e, w) \<Rightarrow> (e, fs\<lparr>fs_row_group_writer := Some w\<rparr>))))"

definition FileSerializer_Close :: "(FileMetaData \<Rightarrow> u8 list) \<Rightarrow> FileSerializer \<Rightarrow> FileSerializer outcome" where
  "FileSerializer_Close serialize fs =
     (if fs_is_open fs then
        and_then (close_last_row_group fs)
          (\<lambda>fs.
             let fs = reset_row_group_writer None fs in
             and_then (WriteMetaData serialize fs) (\<lambda>fs.
               case Sink_Close (fs_sink fs) of
                 (Some e, s) \<Rightarrow> (Some e, fs\<lparr>fs_sink := s\<rparr>)
               | (None, s) \<Rightarrow> (None, fs\<lparr>fs_sink := s, fs_is_open := False\<rparr>)))
      else (None, fs))"

definition FileSerializer_num_row_groups :: "FileSerializer \<Rightarrow> int" where
  "FileSerializer_num_row_groups fs = fs_num_row_groups fs"

definition FileSerializer_num_rows :: "FileSerializer \<Rightarrow> int" where
  "FileSerializer_num_rows fs = fs_num_rows fs"

text \<open>\<open>AppendRowGroup\<close> (lines 191--201).\<close>

definition FileSerializer_AppendRowGroup :: "FileSerializer \<Rightarrow> FileSerializer outcome" where
  "FileSerializer_AppendRowGroup fs =
     and_then
       (case fs_row_group_writer fs of
          None \<Rightarrow> (None, fs)
        | Some w \<Rightarrow>
            (case RowGroupWriter_Close w of
               (e, w) \<Rightarrow> (e, fs\<lparr>fs_row_group_writer := Some w\<rparr>)))
       (\<lambda>fs.
          let fs = fs\<lparr>fs_num_row_groups := fs_num_row_groups fs + 1\<rparr>;
              rg_metadata = FileMetaDataBuilder_AppendRowGroup (fs_metadata fs);
              contents = RowGroupSerializer_Make rg_metadata
          in (None, reset_row_group_writer (Some (RowGroupWriter_Make contents)) fs))"

text \<open>
  The destructor (lines 203--208). While the base-class destructor runs, the object's
  dynamic type is \<open>FileSerializer\<close>, so the virtual call in \<open>Close\<close> reaches
  \<open>FileSerializer::WriteMetaData\<close> also for a \<open>ZdbFileSerializer\<close>.
\<close>

definition FileSerializer_destructor ::
  "(FileMetaData \<Rightarrow> u8 list) \<Rightarrow> FileSerializer \<Rightarrow> FileSerializer outcome" where
  "FileSerializer_destructor serialize fs =
     try_catch_all (FileSerializer_Close serialize (fs\<lparr>fs_class := FileSerializer_class\<rparr>))"

text \<open>
  The constructor of \<open>ZdbFileSerializer\<close> (lines 329--339). When \<open>StartFile\<close> throws in
  its body, the base class is already constructed: unwinding runs the destructor of
  \<open>FileSerializer\<close>, and the exception then leaves the constructor.
\<close>

definition ZdbFileSerializer_Make ::
  "(FileMetaData \<Rightarrow> u8 list) \<Rightarrow> Sink \<Rightarrow> int \<Rightarrow> (string \<times> string) list option
     \<Rightarrow> FileMetaData option \<Rightarrow> FileSerializer outcome" where
  "ZdbFileSerializer_Make serialize sink schema_columns key_value_metadata old_file_meta =
     and_then (FileSerializer_Make sink schema_columns key_value_metadata) (\<lambda>fs.
       let fs = fs\<lparr>fs_class := ZdbFileSerializer_class, fs_old_file_meta := old_file_meta\<rparr> in
       if fs_old_file_meta fs = None then
         (case FileSerializer_StartFile fs of
            (None, fs) \<Rightarrow> (None, fs)
          | (Some e, fs) \<Rightarrow>
              (case FileSerializer_destructor serialize fs of
                 (None, fs) \<Rightarrow> (Some e, fs)
               | (Some undefined_behaviour, fs) \<Rightarrow> (Some undefined_behaviour, fs)))
       else (None, fs))"

text \<open>The caller using the pointer that \<open>AppendRowGroup\<close> returned.\<close>

definition on_row_group ::
  "(RowGroupWriter \<Rightarrow> RowGroupWriter outcome) \<Rightarrow> FileSerializer \<Rightarrow> FileSerializer outcome" where
  "on_row_group f fs =
     (case fs_row_group_writer fs of
        None \<Rightarrow> (Some NullDereference, fs)
      | Some w \<Rightarrow> (case f w of (e, w) \<Rightarrow> (e, fs\<lparr>fs_row_group_writer := Some w\<rparr>)))"

subsection \<open>\<open>ParquetFileWriter\<close> (lines 349--428)\<close>

record ParquetFileWriter =
  pfw_contents :: "FileSerializer option"

text \<open>
  \<open>Open\<close> (lines 379--388) and \<open>OpenAppend\<close> (lines 366--377): the writer, or the
  exception that left the constructor of its contents.
\<close>

definition ParquetFileWriter_Open ::
  "Sink \<Rightarrow> int \<Rightarrow> (string \<times> string) list option \<Rightarrow> error + ParquetFileWriter" where
  "ParquetFileWriter_Open sink schema_columns key_value_metadata =
     (case FileSerializer_Make sink schema_columns key_value_metadata of
        (Some e, _) \<Rightarrow> Inl e
      | (None, contents) \<Rightarrow> Inr \<lparr>pfw_contents = Some contents\<rparr>)"

definition ParquetFileWriter_OpenAppend ::
  "(FileMetaData \<Rightarrow> u8 list) \<Rightarrow> Sink \<Rightarrow> int \<Rightarrow> FileMetaData option
     \<Rightarrow> (string \<times> string) list option \<Rightarrow> error + ParquetFileWriter" where
  "ParquetFileWriter_OpenAppend serialize sink schema_columns old_file_meta key_value_metadata =
     (case ZdbFileSerializer_Make serialize sink schema_columns key_value_metadata old_file_meta of
        (Some e, _) \<Rightarrow> Inl e
      | (None, contents) \<Rightarrow> Inr \<lparr>pfw_contents = Some contents\<rparr>)"

text \<open>
  \<open>Close\<close> (lines 411--416). \<open>contents_.reset()\<close> runs the destructor of the contents,
  whose dynamic type the caller's \<open>Close\<close> has already served.
\<close>

definition ParquetFileWriter_Close ::
  "(FileMetaData \<Rightarrow> u8 list) \<Rightarrow> ParquetFileWriter \<Rightarrow> ParquetFileWriter outcome" where
  "ParquetFileWriter_Close serialize w =
     (case pfw_contents w of
        None \<Rightarrow> (None, w)
      | Some c \<Rightarrow>
          (case FileSerializer_Close serialize c of
             (Some e, c) \<Rightarrow> (Some e, w\<lparr>pfw_contents := Some c\<rparr>)
           | (None, c) \<Rightarrow>
               (case FileSerializer_destructor serialize c of
                  (e, _) \<Rightarrow> (e, w\<lparr>pfw_contents := None\<rparr>))))"

text \<open>
  The destructor (lines 351--356), followed by the destruction of the member
  \<open>contents_\<close>, which destroys the contents if \<open>Close\<close> left them in place.
\<close>

definition ParquetFileWriter_destructor ::
  "(FileMetaData \<Rightarrow> u8 list) \<Rightarrow> ParquetFileWriter \<Rightarrow> ParquetFileWriter outcome" where
  "ParquetFileWriter_destructor serialize w =
     and_then (try_catch_all (ParquetFileWriter_Close serialize w)) (\<lambda>w.
       case pfw_contents w of
         None \<Rightarrow> (None, w)
       | Some c \<Rightarrow>
           (case FileSerializer_destructor serialize c of
              (e, _) \<Rightarrow> (e, w\<lparr>pfw_contents := None\<rparr>)))"

text \<open>\<open>AppendRowGroup()\<close> (lines 418--420) and \<open>AppendRowGroup(int64_t)\<close> (lines 422--424).\<close>

definition ParquetFileWriter_AppendRowGroup :: "ParquetFileWriter \<Rightarrow> ParquetFileWriter outcome" where
  "ParquetFileWriter_AppendRowGroup w =
     (case pfw_contents w of
        None \<Rightarrow> (Some NullDereference, w)
      | Some c \<Rightarrow>
          (case FileSerializer_AppendRowGroup c of (e, c) \<Rightarrow> (e, w\<lparr>pfw_contents := Some c\<rparr>)))"

definition ParquetFileWriter_AppendRowGroup_num_rows ::
  "int \<Rightarrow> ParquetFileWriter \<Rightarrow> ParquetFileWriter outcome" where
  "ParquetFileWriter_AppendRowGroup_num_rows num_rows w = ParquetFileWriter_AppendRowGroup w"

definition ParquetFileWriter_num_rows :: "ParquetFileWriter \<Rightarrow> error + int" where
  "ParquetFileWriter_num_rows w =
     (case pfw_contents w of
        None \<Rightarrow> Inl NullDereference
      | Some c \<Rightarrow> Inr (FileSerializer_num_rows c))"

subsection \<open>Sequences of calls\<close>

text \<open>A caller making one call after the other; the first exception ends the sequence.\<close>

definition run :: "'s outcome \<Rightarrow> ('s \<Rightarrow> 's outcome) list \<Rightarrow> 's outcome" where
  "run r calls = foldl and_then r calls"

text \<open>A new sink without a limit, and a new row group writer for a schema of \<open>n\<close> columns.\<close>

definition new_sink :: Sink where
  "new_sink = \<lparr>sink_data = [], sink_closed = False, sink_room = None\<rparr>"

definition new_row_group_writer :: "int \<Rightarrow> RowGroupWriter" where
  "new_row_group_writer n =
     RowGroupWriter_Make (RowGroupSerializer_Make (RowGroupMetaDataBuilder_Make n))"

text \<open>
  A caller filling a row group: for each column in turn \<open>NextColumn\<close> and one batch of
  the given number of rows and bytes; \<open>write_row_group\<close> closes the group afterwards.
\<close>

fun write_columns :: "(nat \<times> nat) list \<Rightarrow> RowGroupWriter \<Rightarrow> RowGroupWriter outcome" where
  "write_columns [] w = (None, w)"
| "write_columns ((rows, bytes) # rest) w =
     and_then (RowGroupWriter_NextColumn [] w) (\<lambda>w.
       and_then (RowGroupWriter_write_batch rows bytes w) (write_columns rest))"

definition write_row_group :: "(nat \<times> nat) list \<Rightarrow> RowGroupWriter \<Rightarrow> RowGroupWriter outcome" where
  "write_row_group cols w = and_then (write_columns cols w) RowGroupWriter_Close"

text \<open>A row group writer for two columns whose first column is open and holds 100 rows.\<close>

definition first_column_open :: RowGroupWriter where
  "first_column_open =
     snd (run (None, new_row_group_writer 2)
            [RowGroupWriter_NextColumn [], RowGroupWriter_write_batch 100 800])"

text \<open>
  The footers of the append example in the specification: an old file with one row group of
  80 rows and side metadata \<open>a = 1\<close>, and a new run with one row group of 20 rows and
  side metadata \<open>a = 2\<close>, \<open>b = 3\<close>.
\<close>

definition old_footer :: FileMetaData where
  "old_footer =
     \<lparr>fm_row_groups = [\<lparr>rowgroup_columns = [[]], rowgroup_total_byte_size = 640, rowgroup_num_rows = 80\<rparr>],
      fm_num_rows = 80,
      fm_key_value_metadata = [\<lparr>kv_key = ''a'', kv_value = ''1'', kv_isset_value = True\<rparr>],
      fm_isset_key_value_metadata = True\<rparr>"

definition new_footer :: FileMetaData where
  "new_footer =
     \<lparr>fm_row_groups = [\<lparr>rowgroup_columns = [[]], rowgroup_total_byte_size = 160, rowgroup_num_rows = 20\<rparr>],
      fm_num_rows = 20,
      fm_key_value_metadata =
        [\<lparr>kv_key = ''a'', kv_value = ''2'', kv_isset_value = True\<rparr>,
         \<lparr>kv_key = ''b'', kv_value = ''3'', kv_isset_value = True\<rparr>],
      fm_isset_key_value_metadata = True\<rparr>"

text \<open>
  A stand-in for the Thrift encoding, for the examples: one byte per row group (its row
  count), then one byte for the total row count.
\<close>

definition sample_serialize :: "FileMetaData \<Rightarrow> u8 list" where
  "sample_serialize m =
     map (\<lambda>g. word_of_int (rowgroup_num_rows g)) (fm_row_groups m) @ [word_of_int (fm_num_rows m)]"

text \<open>
  An append-mode serializer whose run has written the row group and the side metadata of
  \<open>new_footer\<close> behind the body of the old file, before \<open>Close\<close>.
\<close>

definition appending_serializer :: FileSerializer where
  "appending_serializer =
     \<lparr>fs_class = ZdbFileSerializer_class,
      fs_sink = \<lparr>sink_data = PARQUET_MAGIC, sink_closed = False, sink_room = None\<rparr>,
      fs_is_open = True,
      fs_num_row_groups = 1,
      fs_num_rows = 0,
      fs_metadata =
        \<lparr>fmb_num_columns = 1,
         fmb_key_value_metadata = Some [(''a'', ''2''), (''b'', ''3'')],
         fmb_row_groups = fm_row_groups new_footer\<rparr>,
      fs_row_group_writer = None,
      fs_old_file_meta = Some old_footer\<rparr>"

text \<open>
  The file-totals example of the specification on a schema of one column: a new file, a
  row group of 100 rows and a row group of 50 rows (\<open>two_row_groups_written\<close>), then
  \<open>Close\<close> (\<open>two_row_groups\<close>).
\<close>

definition two_row_groups_written :: "FileSerializer outcome" where
  "two_row_groups_written =
     run (FileSerializer_Make new_sink 1 None)
       [FileSerializer_AppendRowGroup,
        on_row_group (RowGroupWriter_NextColumn []),
        on_row_group (RowGroupWriter_write_batch 100 800),
        FileSerializer_AppendRowGroup,
        on_row_group (RowGroupWriter_NextColumn []),
        on_row_group (RowGroupWriter_write_batch 50 400)]"

definition two_row_groups :: "FileSerializer outcome" where
  "two_row_groups = and_then two_row_groups_written (FileSerializer_Close sample_serialize)"

text \<open>An encoding under which every footer takes \<open>2 ^ 32\<close> bytes.\<close>

definition wide_serialize :: "FileMetaData \<Rightarrow> u8 list" where
  "wide_serialize m = replicate (2 ^ 32) 0"

text \<open>
  A new file without row groups on a new sink, and the same on a sink that takes the
  magic marker and then has no room left.
\<close>

definition empty_file :: FileSerializer where
  "empty_file = snd (FileSerializer_Make new_sink 1 None)"

definition file_on_full_sink :: FileSerializer where
  "file_on_full_sink =
     snd (FileSerializer_Make \<lparr>sink_data = [], sink_closed = False, sink_room = Some 4\<rparr> 1 None)"

text \<open>The old footer of the append example with the largest row count an \<open>int64_t\<close> holds.\<close>

definition old_footer_at_limit :: FileMetaData where
  "old_footer_at_limit = old_footer\<lparr>fm_num_rows := 9223372036854775807\<rparr>"



text \<open>The caller calling \<open>num_rows()\<close> on the row group writer and dropping the value.\<close>

definition RowGroupWriter_call_num_rows :: "RowGroupWriter \<Rightarrow> RowGroupWriter outcome" where
  "RowGroupWriter_call_num_rows w =
     (case RowGroupWriter_num_rows w of
        (Inl e, w) \<Rightarrow> (Some e, w)
      | (Inr n, w) \<Rightarrow> (None, w))"

section \<open>Properties\<close>

subsection \<open>The key-value map of the append merge\<close>

lemma map_insert_keys: "fst ` set (map_insert kv m) = insert (fst kv) (fst ` set m)"
  by (induction kv m rule: map_insert.induct) auto

lemma map_insert_sorted:
  "sorted_wrt (<) (map fst m) \<Longrightarrow> sorted_wrt (<) (map fst (map_insert kv m))"
proof (induction kv m rule: map_insert.induct)
  case (1 k v)
  then show ?case by simp
next
  case (2 k v k' v' m)
  show ?case
  proof (cases "k = k' \<or> k < k'")
    case True
    with 2 show ?thesis by auto
  next
    case False
    then have gt: "k' < k" by auto
    from 2 False have IH: "sorted_wrt (<) (map fst (map_insert (k, v) m))" by simp
    have "\<forall>x \<in> fst ` set (map_insert (k, v) m). k' < x"
      using "2.prems" gt by (auto simp: map_insert_keys)
    with IH False show ?thesis by auto
  qed
qed

lemma map_of_map_insert:
  "sorted_wrt (<) (map fst m) \<Longrightarrow> map_of (map_insert (k, v) m) = [k \<mapsto> v] ++ map_of m"
proof (induction m)
  case Nil
  then show ?case by simp
next
  case (Cons a m)
  obtain k' v' where a: "a = (k', v')" by (cases a)
  show ?case
  proof (cases "k = k'")
    case True
    then show ?thesis using a by (auto simp: map_add_def fun_eq_iff split: option.splits)
  next
    case False
    show ?thesis
    proof (cases "k < k'")
      case True
      with Cons.prems a have "k \<notin> fst ` set m" by (auto simp: image_iff)
      then have "map_of m k = None" by (simp add: map_of_eq_None_iff)
      with True False a show ?thesis by (auto simp: map_add_def fun_eq_iff split: option.splits)
    next
      case nlt: False
      from Cons.prems have "sorted_wrt (<) (map fst m)" by simp
      then have IH: "map_of (map_insert (k, v) m) = [k \<mapsto> v] ++ map_of m" by (rule Cons.IH)
      have "map_of (map_insert (k, v) (a # m)) = (map_of (map_insert (k, v) m))(k' \<mapsto> v')"
        using nlt False a by simp
      also have "\<dots> = ([k \<mapsto> v] ++ map_of m)(k' \<mapsto> v')" by (simp only: IH)
      also have "\<dots> = [k \<mapsto> v] ++ map_of (a # m)" using a by simp
      finally show ?thesis .
    qed
  qed
qed

lemma transform_into_sorted:
  "sorted_wrt (<) (map fst m) \<Longrightarrow> sorted_wrt (<) (map fst (transform_into kvs m))"
  unfolding transform_into_def
  by (induction kvs arbitrary: m) (simp_all add: map_insert_sorted)

lemma map_of_transform_into:
  "sorted_wrt (<) (map fst m) \<Longrightarrow>
   map_of (transform_into kvs m) = mapping_of kvs ++ map_of m"
  unfolding transform_into_def mapping_of_def
proof (induction kvs arbitrary: m)
  case Nil
  then show ?case by simp
next
  case (Cons kv kvs)
  have "map_of (foldl (\<lambda>m kv. map_insert (kv_key kv, kv_value kv) m) (map_insert (kv_key kv, kv_value kv) m) kvs)
      = map_of (map (\<lambda>kv. (kv_key kv, kv_value kv)) kvs) ++ map_of (map_insert (kv_key kv, kv_value kv) m)"
    using Cons.prems by (intro Cons.IH map_insert_sorted)
  also have "\<dots> = map_of (map (\<lambda>kv. (kv_key kv, kv_value kv)) kvs) ++ ([kv_key kv \<mapsto> kv_value kv] ++ map_of m)"
    using Cons.prems by (simp only: map_of_map_insert)
  finally show ?case by (simp add: map_add_def fun_eq_iff split: option.splits)
qed

lemma mapping_of_key_values_of: "mapping_of (key_values_of m) = map_of m"
  unfolding mapping_of_def key_values_of_def
  by (induction m) (auto simp: fun_eq_iff)

lemma key_values_of_keys: "map kv_key (key_values_of m) = map fst m"
  unfolding key_values_of_def by (induction m) auto

lemma merged_key_values:
  "mapping_of (fm_key_value_metadata (merge_metadata old target))
     = mapping_of (fm_key_value_metadata target) ++ mapping_of (fm_key_value_metadata old)"
  by (simp add: merge_metadata_def Let_def mapping_of_key_values_of map_of_transform_into transform_into_sorted)

lemma merged_keys_sorted:
  "sorted_wrt (<) (map kv_key (fm_key_value_metadata (merge_metadata old target)))"
  by (simp add: merge_metadata_def Let_def key_values_of_keys transform_into_sorted)

subsection \<open>Sequencing, the sink and the footer writes\<close>

lemma and_then_None:
  "and_then r f = (None, s') \<longleftrightarrow> (\<exists>s. r = (None, s) \<and> f s = (None, s'))"
  by (cases r) (auto simp: and_then_def split: option.splits)

lemma and_then_Some:
  "and_then r f = (Some e, s') \<longleftrightarrow> r = (Some e, s') \<or> (\<exists>s. r = (None, s) \<and> f s = (Some e, s'))"
  by (cases r) (auto simp: and_then_def split: option.splits)

lemma and_then_return [simp]: "and_then (None, s) f = f s"
  by (simp add: and_then_def)

lemma and_then_raise [simp]: "and_then (Some e, s) f = (Some e, s)"
  by (simp add: and_then_def)

lemma Sink_Write_None:
  assumes "Sink_Write bs s = (None, s')"
  shows "sink_data s' = sink_data s @ bs" and "\<not> sink_closed s" and "\<not> sink_closed s'"
  using assms by (auto simp: Sink_Write_def split: if_splits option.splits)

lemma Sink_Write_Some:
  assumes "Sink_Write bs s = (Some e, s')"
  shows "s' = s" and "e = IOError"
  using assms by (auto simp: Sink_Write_def split: if_splits option.splits)

lemma sink_write_NoneE:
  assumes "sink_write bs fs = (None, fs')"
  obtains s' where "fs' = fs\<lparr>fs_sink := s'\<rparr>" and "sink_data s' = sink_data (fs_sink fs) @ bs"
    and "\<not> sink_closed s'" and "\<not> sink_closed (fs_sink fs)"
proof -
  from assms obtain s' where w: "Sink_Write bs (fs_sink fs) = (None, s')" and eq: "fs' = fs\<lparr>fs_sink := s'\<rparr>"
    by (cases "Sink_Write bs (fs_sink fs)") (simp add: sink_write_def)
  from that [OF eq Sink_Write_None(1) [OF w] Sink_Write_None(3) [OF w] Sink_Write_None(2) [OF w]]
  show thesis .
qed

lemma sink_write_Some:
  assumes "sink_write bs fs = (Some e, fs')"
  shows "fs' = fs" and "e = IOError"
proof -
  from assms obtain s' where w: "Sink_Write bs (fs_sink fs) = (Some e, s')" and eq: "fs' = fs\<lparr>fs_sink := s'\<rparr>"
    by (cases "Sink_Write bs (fs_sink fs)") (simp add: sink_write_def)
  show "fs' = fs" using Sink_Write_Some(1) [OF w] eq by simp
  show "e = IOError" using Sink_Write_Some(2) [OF w] .
qed

lemma footer_length:
  "(word_of_int (int (length (xs @ ys))) :: u32) - word_of_int (int (length xs)) = word_of_nat (length ys)"
  by simp

text \<open>The three writes that end both \<open>WriteMetaData\<close> functions (lines 245--250, 321--326).\<close>

lemma footer_writes:
  assumes w1: "sink_write footer fs = (None, fs1)"
    and w2: "sink_write (uint32_bytes (word_of_int (Sink_Tell (fs_sink fs1)) - word_of_int (Sink_Tell (fs_sink fs)))) fs1 = (None, fs2)"
    and w3: "sink_write PARQUET_MAGIC fs2 = (None, fs')"
  obtains s' where "fs' = fs\<lparr>fs_sink := s'\<rparr>"
    and "sink_data s' = sink_data (fs_sink fs) @ footer @ uint32_bytes (word_of_nat (length footer)) @ PARQUET_MAGIC"
    and "\<not> sink_closed s'"
proof -
  from w1 obtain s1 where 1: "fs1 = fs\<lparr>fs_sink := s1\<rparr>" "sink_data s1 = sink_data (fs_sink fs) @ footer"
    by (rule sink_write_NoneE)
  have len: "(word_of_int (Sink_Tell (fs_sink fs1)) :: u32) - word_of_int (Sink_Tell (fs_sink fs)) = word_of_nat (length footer)"
    using 1 by (simp add: Sink_Tell_def)
  from w2 obtain s2 where 2: "fs2 = fs1\<lparr>fs_sink := s2\<rparr>"
      "sink_data s2 = sink_data (fs_sink fs1) @ uint32_bytes (word_of_nat (length footer))"
    unfolding len by (rule sink_write_NoneE)
  from w3 obtain s3 where 3: "fs' = fs2\<lparr>fs_sink := s3\<rparr>"
      "sink_data s3 = sink_data (fs_sink fs2) @ PARQUET_MAGIC" "\<not> sink_closed s3"
    by (rule sink_write_NoneE)
  show thesis
  proof (rule that [of s3])
    show "fs' = fs\<lparr>fs_sink := s3\<rparr>" using 1(1) 2(1) 3(1) by simp
    show "sink_data s3 = sink_data (fs_sink fs) @ footer @ uint32_bytes (word_of_nat (length footer)) @ PARQUET_MAGIC"
      using 1 2 3 by simp
    show "\<not> sink_closed s3" by (rule 3(3))
  qed
qed

lemma FileSerializer_WriteMetaData_NoneE:
  assumes "FileSerializer_WriteMetaData serialize fs = (None, fs')"
  obtains s' where "fs' = fs\<lparr>fs_sink := s'\<rparr>"
    and "sink_data s' =
           sink_data (fs_sink fs) @ serialize (FileMetaDataBuilder_Finish (fs_metadata fs))
             @ uint32_bytes (word_of_nat (length (serialize (FileMetaDataBuilder_Finish (fs_metadata fs)))))
             @ PARQUET_MAGIC"
    and "\<not> sink_closed s'"
proof -
  let ?footer = "serialize (FileMetaDataBuilder_Finish (fs_metadata fs))"
  from assms have "\<exists>fs1 fs2. sink_write ?footer fs = (None, fs1) \<and>
     sink_write (uint32_bytes (word_of_int (Sink_Tell (fs_sink fs1)) - word_of_int (Sink_Tell (fs_sink fs)))) fs1 = (None, fs2) \<and>
     sink_write PARQUET_MAGIC fs2 = (None, fs')"
    by (simp only: FileSerializer_WriteMetaData_def Let_def and_then_None) blast
  then obtain fs1 fs2 where
    w1: "sink_write ?footer fs = (None, fs1)" and
    w2: "sink_write (uint32_bytes (word_of_int (Sink_Tell (fs_sink fs1)) - word_of_int (Sink_Tell (fs_sink fs)))) fs1 = (None, fs2)" and
    w3: "sink_write PARQUET_MAGIC fs2 = (None, fs')"
    by blast
  from footer_writes [OF w1 w2 w3] that show thesis by blast
qed

lemma ZdbFileSerializer_WriteMetaData_NoneE:
  assumes "ZdbFileSerializer_WriteMetaData serialize fs = (None, fs')"
  obtains metadata_old s' where "fs_old_file_meta fs = Some metadata_old"
    and "fs' = fs\<lparr>fs_sink := s'\<rparr>"
    and "sink_data s' =
           sink_data (fs_sink fs)
             @ serialize (merge_metadata metadata_old (FileMetaDataBuilder_Finish (fs_metadata fs)))
             @ uint32_bytes (word_of_nat (length (serialize (merge_metadata metadata_old (FileMetaDataBuilder_Finish (fs_metadata fs))))))
             @ PARQUET_MAGIC"
    and "\<not> sink_closed s'"
proof -
  from assms obtain metadata_old where old: "fs_old_file_meta fs = Some metadata_old"
    by (cases "fs_old_file_meta fs") (simp_all add: ZdbFileSerializer_WriteMetaData_def)
  let ?footer = "serialize (merge_metadata metadata_old (FileMetaDataBuilder_Finish (fs_metadata fs)))"
  from assms old have "\<exists>fs1 fs2. sink_write ?footer fs = (None, fs1) \<and>
     sink_write (uint32_bytes (word_of_int (Sink_Tell (fs_sink fs1)) - word_of_int (Sink_Tell (fs_sink fs)))) fs1 = (None, fs2) \<and>
     sink_write PARQUET_MAGIC fs2 = (None, fs')"
    by (simp only: ZdbFileSerializer_WriteMetaData_def Let_def and_then_None option.case) blast
  then obtain fs1 fs2 where
    w1: "sink_write ?footer fs = (None, fs1)" and
    w2: "sink_write (uint32_bytes (word_of_int (Sink_Tell (fs_sink fs1)) - word_of_int (Sink_Tell (fs_sink fs)))) fs1 = (None, fs2)" and
    w3: "sink_write PARQUET_MAGIC fs2 = (None, fs')"
    by blast
  from footer_writes [OF w1 w2 w3] old that show thesis by blast
qed

subsection \<open>The append merge and the public wrapper\<close>

text \<open>
  C2 (as amended). In append-merge mode the side metadata of the merged footer is the
  key-by-key union of the old footer's mapping and the mapping of this run, with one entry
  per key in ascending key order; on a colliding key the value of the old file is kept,
  and the keys that only one of the two footers has are retained with their value.
\<close>

theorem merged_side_metadata_old_value_kept:
  "mapping_of (fm_key_value_metadata (merge_metadata metadata_old metadata_target)) k
     = (case mapping_of (fm_key_value_metadata metadata_old) k of
          Some v \<Rightarrow> Some v
        | None \<Rightarrow> mapping_of (fm_key_value_metadata metadata_target) k)
   \<and> sorted_wrt (<) (map kv_key (fm_key_value_metadata (merge_metadata metadata_old metadata_target)))"
  by (simp add: merged_key_values merged_keys_sorted map_add_def)

text \<open>
  C2 as stated fails on the example of the specification: the old footer has \<open>a = 1\<close>,
  this run has \<open>a = 2\<close> and \<open>b = 3\<close>, and the merged footer keeps \<open>a = 1\<close>.
\<close>

theorem merged_side_metadata_new_value_lost:
  "fm_key_value_metadata (merge_metadata old_footer new_footer)
     = [\<lparr>kv_key = ''a'', kv_value = ''1'', kv_isset_value = True\<rparr>,
        \<lparr>kv_key = ''b'', kv_value = ''3'', kv_isset_value = True\<rparr>]
   \<and> mapping_of (fm_key_value_metadata (merge_metadata old_footer new_footer)) ''a'' = Some ''1''
   \<and> (mapping_of (fm_key_value_metadata old_footer) ++ mapping_of (fm_key_value_metadata new_footer)) ''a''
       = Some ''2''"
  by (simp add: merge_metadata_def old_footer_def new_footer_def transform_into_def
      key_values_of_def mapping_of_def Let_def)

lemma int64_add_in_range:
  assumes "- (2 ^ 63) \<le> a + b" and "a + b < 2 ^ 63"
  shows "int64_add a b = a + b"
proof -
  have "int64_add a b = sint (word_of_int (a + b) :: 64 word)"
    by (simp add: int64_add_def)
  also have "\<dots> = signed_take_bit 63 (a + b)"
    by (simp only: sint_sbintrunc') simp
  also have "\<dots> = a + b"
    using assms by (rule signed_take_bit_int_eq_self)
  finally show ?thesis .
qed

text \<open>
  C5 (as amended). In append-merge mode the footer written is the merged one: its row
  groups are those of the old footer followed by those of this run, both in their order;
  its row count is the 64-bit sum of the two row counts, which is their sum whenever that
  sum lies in the range of \<open>int64_t\<close>; and it marks side metadata as present exactly
  when the union of the two mappings has a key.
\<close>

theorem append_merge_footer:
  assumes "fs_old_file_meta fs = Some metadata_old"
    and "ZdbFileSerializer_WriteMetaData serialize fs = (None, fs')"
  shows "let metadata_target = FileMetaDataBuilder_Finish (fs_metadata fs);
             merged = merge_metadata metadata_old metadata_target
         in sink_data (fs_sink fs') =
              sink_data (fs_sink fs) @ serialize merged
                @ uint32_bytes (word_of_nat (length (serialize merged))) @ PARQUET_MAGIC
          \<and> fm_row_groups merged = fm_row_groups metadata_old @ fm_row_groups metadata_target
          \<and> fm_num_rows merged = int64_add (fm_num_rows metadata_target) (fm_num_rows metadata_old)
          \<and> (- (2 ^ 63) \<le> fm_num_rows metadata_target + fm_num_rows metadata_old
               \<and> fm_num_rows metadata_target + fm_num_rows metadata_old < 2 ^ 63
              \<longrightarrow> fm_num_rows merged = fm_num_rows metadata_target + fm_num_rows metadata_old)
          \<and> dom (mapping_of (fm_key_value_metadata merged))
              = dom (mapping_of (fm_key_value_metadata metadata_old))
                \<union> dom (mapping_of (fm_key_value_metadata metadata_target))
          \<and> fm_isset_key_value_metadata merged = (dom (mapping_of (fm_key_value_metadata merged)) \<noteq> {})"
proof -
  let ?target = "FileMetaDataBuilder_Finish (fs_metadata fs)"
  let ?merged = "merge_metadata metadata_old ?target"
  from assms(2) obtain old' s' where "fs_old_file_meta fs = Some old'" and "fs' = fs\<lparr>fs_sink := s'\<rparr>"
    and "sink_data s' = sink_data (fs_sink fs) @ serialize (merge_metadata old' ?target)
           @ uint32_bytes (word_of_nat (length (serialize (merge_metadata old' ?target)))) @ PARQUET_MAGIC"
    by (rule ZdbFileSerializer_WriteMetaData_NoneE)
  with assms(1) have bytes: "sink_data (fs_sink fs') = sink_data (fs_sink fs) @ serialize ?merged
           @ uint32_bytes (word_of_nat (length (serialize ?merged))) @ PARQUET_MAGIC"
    by simp
  have groups: "fm_row_groups ?merged = fm_row_groups metadata_old @ fm_row_groups ?target"
    by (simp add: merge_metadata_def Let_def)
  have rows: "fm_num_rows ?merged = int64_add (fm_num_rows ?target) (fm_num_rows metadata_old)"
    by (simp add: merge_metadata_def Let_def)
  have exact: "- (2 ^ 63) \<le> fm_num_rows ?target + fm_num_rows metadata_old
               \<and> fm_num_rows ?target + fm_num_rows metadata_old < 2 ^ 63
              \<longrightarrow> fm_num_rows ?merged = fm_num_rows ?target + fm_num_rows metadata_old"
    unfolding rows by (intro impI int64_add_in_range) simp_all
  have keys: "dom (mapping_of (fm_key_value_metadata ?merged))
      = dom (mapping_of (fm_key_value_metadata metadata_old)) \<union> dom (mapping_of (fm_key_value_metadata ?target))"
    by (simp add: merged_key_values Un_commute)
  have "fm_isset_key_value_metadata ?merged = (fm_key_value_metadata ?merged \<noteq> [])"
    by (simp add: merge_metadata_def Let_def)
  also have "\<dots> = (dom (mapping_of (fm_key_value_metadata ?merged)) \<noteq> {})"
    by (cases "fm_key_value_metadata ?merged") (simp_all add: mapping_of_def)
  finally have isset: "fm_isset_key_value_metadata ?merged = (dom (mapping_of (fm_key_value_metadata ?merged)) \<noteq> {})" .
  from bytes groups rows exact keys isset show ?thesis by (simp only: Let_def)
qed

theorem append_merge_footer_witness:
  "fs_old_file_meta appending_serializer = Some old_footer
   \<and> fst (ZdbFileSerializer_WriteMetaData sample_serialize appending_serializer) = None
   \<and> sink_data (fs_sink (snd (ZdbFileSerializer_WriteMetaData sample_serialize appending_serializer)))
       = PARQUET_MAGIC @ [80, 20, 100] @ [3, 0, 0, 0] @ PARQUET_MAGIC
   \<and> FileMetaDataBuilder_Finish (fs_metadata appending_serializer) = new_footer
   \<and> fm_row_groups (merge_metadata old_footer new_footer)
       = fm_row_groups old_footer @ fm_row_groups new_footer
   \<and> - (2 ^ 63) \<le> fm_num_rows new_footer + fm_num_rows old_footer
   \<and> fm_num_rows new_footer + fm_num_rows old_footer < 2 ^ 63
   \<and> fm_num_rows (merge_metadata old_footer new_footer) = 100
   \<and> fm_isset_key_value_metadata (merge_metadata old_footer new_footer)"
proof -
  have target: "FileMetaDataBuilder_Finish (fs_metadata appending_serializer) = new_footer"
    by (simp add: FileMetaDataBuilder_Finish_def appending_serializer_def new_footer_def key_values_of_def)
  have old: "fs_old_file_meta appending_serializer = Some old_footer"
    by (simp add: appending_serializer_def)
  have merged: "sample_serialize (merge_metadata old_footer new_footer) = [80, 20, 100]"
    by (simp add: sample_serialize_def merge_metadata_def old_footer_def new_footer_def int64_add_def Let_def)
  have ok: "ZdbFileSerializer_WriteMetaData sample_serialize appending_serializer
      = (None, snd (ZdbFileSerializer_WriteMetaData sample_serialize appending_serializer))"
    by (simp add: ZdbFileSerializer_WriteMetaData_def old target merged sink_write_def Sink_Write_def
        appending_serializer_def Let_def)
  have len: "uint32_bytes 3 = [3, 0, 0, 0]"
    by (simp add: uint32_bytes_def)
  have data: "sink_data (fs_sink appending_serializer) = PARQUET_MAGIC"
    by (simp add: appending_serializer_def)
  have returns: "fst (ZdbFileSerializer_WriteMetaData sample_serialize appending_serializer) = None"
    by (metis ok fst_conv)
  have isset: "fm_isset_key_value_metadata (merge_metadata old_footer new_footer)"
    by (simp add: merge_metadata_def old_footer_def new_footer_def transform_into_def key_values_of_def Let_def)
  have sum: "fm_num_rows new_footer + fm_num_rows old_footer = 100"
    by (simp add: old_footer_def new_footer_def)
  have range: "- (2 ^ 63) \<le> fm_num_rows new_footer + fm_num_rows old_footer
      \<and> fm_num_rows new_footer + fm_num_rows old_footer < 2 ^ 63"
    unfolding sum by simp
  have groups: "fm_row_groups (merge_metadata old_footer new_footer)
       = fm_row_groups old_footer @ fm_row_groups new_footer"
    by (simp add: merge_metadata_def Let_def)
  note claim = append_merge_footer [OF old ok, unfolded Let_def target]
  from claim have "sink_data (fs_sink (snd (ZdbFileSerializer_WriteMetaData sample_serialize appending_serializer)))
       = PARQUET_MAGIC @ [80, 20, 100] @ [3, 0, 0, 0] @ PARQUET_MAGIC"
    by (simp add: merged len data)
  moreover from claim range have "fm_num_rows (merge_metadata old_footer new_footer) = 100"
    unfolding sum by blast
  ultimately show ?thesis using old returns target isset groups range by simp
qed

text \<open>
  C5 as stated fails where the sum of the two row counts leaves the range of \<open>int64_t\<close>:
  with an old footer of \<open>2 ^ 63 - 1\<close> rows and a run of 20 rows the merged row count is
  negative.
\<close>

theorem merged_row_count_wraps:
  "fm_num_rows (merge_metadata old_footer_at_limit new_footer) = - 9223372036854775789
   \<and> fm_num_rows new_footer + fm_num_rows old_footer_at_limit = 9223372036854775827
   \<and> fm_num_rows old_footer_at_limit = 2 ^ 63 - 1"
  by (simp add: merge_metadata_def old_footer_at_limit_def old_footer_def new_footer_def
      int64_add_def Let_def)

text \<open>
  C8. \<open>AppendRowGroup(n)\<close> is \<open>AppendRowGroup()\<close> for every \<open>n\<close>: the outcome and the
  writer afterwards are the same, and so is the outcome of every sequence of calls that
  follows.
\<close>

theorem AppendRowGroup_argument_ignored:
  "ParquetFileWriter_AppendRowGroup_num_rows n w = ParquetFileWriter_AppendRowGroup w
   \<and> run (ParquetFileWriter_AppendRowGroup_num_rows n w) calls
       = run (ParquetFileWriter_AppendRowGroup w) calls
   \<and> ParquetFileWriter_AppendRowGroup_num_rows n w = ParquetFileWriter_AppendRowGroup_num_rows m w"
  by (simp add: ParquetFileWriter_AppendRowGroup_num_rows_def)

text \<open>
  C9. Opening in append mode on a sink that accepts eight more bytes writes the magic
  marker twice when the old footer is null, and once when an old footer is given.
\<close>

theorem OpenAppend_magic_written_twice_without_old_footer:
  assumes "\<not> sink_closed sink" and "sink_room sink = None \<or> (\<exists>r\<ge>8. sink_room sink = Some r)"
  shows "(\<exists>fs. ParquetFileWriter_OpenAppend serialize sink n None kv = Inr \<lparr>pfw_contents = Some fs\<rparr>
              \<and> sink_data (fs_sink fs) = sink_data sink @ PARQUET_MAGIC @ PARQUET_MAGIC)
       \<and> (\<exists>fs. ParquetFileWriter_OpenAppend serialize sink n (Some metadata_old) kv
                  = Inr \<lparr>pfw_contents = Some fs\<rparr>
              \<and> sink_data (fs_sink fs) = sink_data sink @ PARQUET_MAGIC)"
  using assms
  by (auto simp: ParquetFileWriter_OpenAppend_def ZdbFileSerializer_Make_def FileSerializer_Make_def
      FileSerializer_StartFile_def sink_write_def Sink_Write_def PARQUET_MAGIC_def Let_def)

theorem OpenAppend_magic_written_twice_without_old_footer_witness:
  "\<not> sink_closed new_sink
   \<and> (\<exists>fs. ParquetFileWriter_OpenAppend sample_serialize new_sink 1 None None
              = Inr \<lparr>pfw_contents = Some fs\<rparr>
          \<and> sink_data (fs_sink fs) = [0x50, 0x41, 0x52, 0x31, 0x50, 0x41, 0x52, 0x31])
   \<and> (\<exists>fs. ParquetFileWriter_OpenAppend sample_serialize new_sink 1 (Some old_footer) None
              = Inr \<lparr>pfw_contents = Some fs\<rparr>
          \<and> sink_data (fs_sink fs) = [0x50, 0x41, 0x52, 0x31])"
proof -
  have 1: "\<not> sink_closed new_sink" by (simp add: new_sink_def)
  have 2: "sink_room new_sink = None \<or> (\<exists>r\<ge>8. sink_room new_sink = Some r)" by (simp add: new_sink_def)
  from OpenAppend_magic_written_twice_without_old_footer [OF 1 2, of sample_serialize 1 None old_footer] 1
  show ?thesis by (simp add: new_sink_def PARQUET_MAGIC_def)
qed

text \<open>
  When the second \<open>StartFile\<close> of the constructor of \<open>ZdbFileSerializer\<close> raises, the
  destructor of the base class runs \<open>Close\<close> on the sink before the exception leaves the
  constructor: on a sink with room for five bytes, the marker is followed by the one-byte
  footer of \<open>sample_serialize\<close>.
\<close>

lemma ZdbFileSerializer_Make_unwinding:
  "fst (ZdbFileSerializer_Make sample_serialize
          \<lparr>sink_data = [], sink_closed = False, sink_room = Some 5\<rparr> 1 None None) = Some IOError
   \<and> sink_data (fs_sink (snd (ZdbFileSerializer_Make sample_serialize
          \<lparr>sink_data = [], sink_closed = False, sink_room = Some 5\<rparr> 1 None None)))
       = PARQUET_MAGIC @ [0]"
  by (simp add: ZdbFileSerializer_Make_def FileSerializer_Make_def FileSerializer_StartFile_def
      FileSerializer_destructor_def try_catch_all_def FileSerializer_Close_def
      close_last_row_group_def reset_row_group_writer_def WriteMetaData_def
      FileSerializer_WriteMetaData_def FileMetaDataBuilder_Make_def
      FileMetaDataBuilder_Finish_def sample_serialize_def sink_write_def Sink_Write_def Sink_Tell_def
      Sink_Close_def uint32_bytes_def PARQUET_MAGIC_def Let_def)

subsection \<open>The row count of a row group\<close>

lemma check_open_column_none:
  "rg_current_column_writer rg = None \<Longrightarrow> check_open_column rg = (None, rg)"
  by (simp add: check_open_column_def)

lemma check_open_column_first:
  "rg_current_column_writer rg = Some cw \<Longrightarrow> rg_num_rows rg < 0 \<Longrightarrow>
   check_open_column rg =
     (None, rg\<lparr>rg_num_rows := cw_rows_written cw,
               rg_metadata := RowGroupMetaDataBuilder_set_num_rows (cw_rows_written cw) (rg_metadata rg)\<rparr>)"
  by (simp add: check_open_column_def RowGroupSerializer_CheckRowsWritten_def ColumnWriter_rows_written_def Let_def)

lemma check_open_column_agree:
  "rg_current_column_writer rg = Some cw \<Longrightarrow> rg_num_rows rg = cw_rows_written cw \<Longrightarrow>
   0 \<le> rg_num_rows rg \<Longrightarrow> check_open_column rg = (None, rg)"
  by (simp add: check_open_column_def RowGroupSerializer_CheckRowsWritten_def ColumnWriter_rows_written_def Let_def)

lemma check_open_column_mismatch:
  "rg_current_column_writer rg = Some cw \<Longrightarrow> rg_num_rows rg \<noteq> cw_rows_written cw \<Longrightarrow>
   0 \<le> rg_num_rows rg \<Longrightarrow>
   check_open_column rg =
     (Some (ParquetException
        (rows_message (rg_current_column_index rg) (cw_rows_written cw) (rg_num_rows rg))), rg)"
  by (simp add: check_open_column_def RowGroupSerializer_CheckRowsWritten_def ColumnWriter_rows_written_def Let_def)

lemma CheckRowsWritten_is_check:
  "rg_current_column_writer rg = Some cw \<Longrightarrow>
   RowGroupSerializer_CheckRowsWritten rg = check_open_column rg"
  by (simp add: check_open_column_def)

lemma NextColumn_mismatch:
  assumes "rg_current_column_writer rg = Some cw" and "rg_num_rows rg \<noteq> cw_rows_written cw"
    and "0 \<le> rg_num_rows rg"
  shows "RowGroupSerializer_NextColumn meta rg =
     (Some (ParquetException
        (rows_message (rg_current_column_index rg) (cw_rows_written cw) (rg_num_rows rg))), rg)"
  by (simp add: RowGroupSerializer_NextColumn_def check_open_column_mismatch [OF assms])

lemma Close_mismatch:
  assumes "rg_current_column_writer rg = Some cw" and "rg_num_rows rg \<noteq> cw_rows_written cw"
    and "0 \<le> rg_num_rows rg" and "\<not> rg_closed rg"
  shows "RowGroupSerializer_Close rg =
     (Some (ParquetException
        (rows_message (rg_current_column_index rg) (cw_rows_written cw) (rg_num_rows rg))),
      rg\<lparr>rg_closed := True\<rparr>)"
proof -
  have "check_open_column (rg\<lparr>rg_closed := True\<rparr>) =
     (Some (ParquetException
        (rows_message (rg_current_column_index rg) (cw_rows_written cw) (rg_num_rows rg))),
      rg\<lparr>rg_closed := True\<rparr>)"
    using check_open_column_mismatch [of "rg\<lparr>rg_closed := True\<rparr>" cw] assms by simp
  then show ?thesis
    using assms by (simp add: RowGroupSerializer_Close_def Let_def check_open_column_def)
qed

text \<open>
  \<open>num_rows()\<close> while a column is open and no row count is recorded yet, followed by a
  further batch for the same column.
\<close>

lemma num_rows_on_open_column:
  assumes "rgw_contents w = Some rg" and "\<not> rg_closed rg"
    and "rg_current_column_writer rg = Some cw" and "rg_num_rows rg < 0"
    and "0 \<le> cw_rows_written cw" and "0 < extra"
  shows "\<exists>w' rg'. RowGroupWriter_num_rows w = (Inr (cw_rows_written cw), w')
           \<and> rgw_contents w' = Some rg'
           \<and> rg_num_rows rg' = cw_rows_written cw
           \<and> rowgroup_num_rows (mb_row_group (rg_metadata rg')) = cw_rows_written cw
           \<and> fst (run (None, w') [RowGroupWriter_write_batch extra bytes, RowGroupWriter_Close])
               = Some (ParquetException (rows_message (rg_current_column_index rg)
                         (cw_rows_written cw + int extra) (cw_rows_written cw)))
           \<and> fst (run (None, w') [RowGroupWriter_write_batch extra bytes, RowGroupWriter_NextColumn meta])
               = Some (ParquetException (rows_message (rg_current_column_index rg)
                         (cw_rows_written cw + int extra) (cw_rows_written cw)))"
proof -
  let ?n = "cw_rows_written cw"
  let ?rg' = "rg\<lparr>rg_num_rows := ?n,
                 rg_metadata := RowGroupMetaDataBuilder_set_num_rows ?n (rg_metadata rg)\<rparr>"
  let ?w' = "w\<lparr>rgw_contents := Some ?rg'\<rparr>"
  let ?cw2 = "ColumnWriter_WriteBatch extra bytes cw"
  let ?rg2 = "write_batch extra bytes ?rg'"
  have check: "check_open_column rg = (None, ?rg')"
    using assms(3,4) by (rule check_open_column_first)
  have num_rows: "RowGroupWriter_num_rows w = (Inr ?n, ?w')"
    using assms(1,5) by (simp add: RowGroupWriter_num_rows_def RowGroupSerializer_num_rows_def check)
  have written: "RowGroupWriter_write_batch extra bytes ?w' = (None, ?w'\<lparr>rgw_contents := Some ?rg2\<rparr>)"
    using assms(3) by (simp add: RowGroupWriter_write_batch_def)
  have cw2: "rg_current_column_writer ?rg2 = Some ?cw2"
    using assms(3) by (simp add: write_batch_def)
  have differ: "rg_num_rows ?rg2 \<noteq> cw_rows_written ?cw2"
    using assms(6) by (simp add: write_batch_def ColumnWriter_WriteBatch_def)
  have nonneg: "0 \<le> rg_num_rows ?rg2"
    using assms(5) by (simp add: write_batch_def)
  have opened: "\<not> rg_closed ?rg2"
    using assms(2) by (simp add: write_batch_def)
  have msg: "rows_message (rg_current_column_index ?rg2) (cw_rows_written ?cw2) (rg_num_rows ?rg2)
      = rows_message (rg_current_column_index rg) (?n + int extra) ?n"
    by (simp add: write_batch_def ColumnWriter_WriteBatch_def)
  have close: "fst (run (None, ?w') [RowGroupWriter_write_batch extra bytes, RowGroupWriter_Close])
      = Some (ParquetException (rows_message (rg_current_column_index rg) (?n + int extra) ?n))"
    by (simp add: run_def written RowGroupWriter_Close_def Close_mismatch [OF cw2 differ nonneg opened] msg)
  have next_column: "fst (run (None, ?w') [RowGroupWriter_write_batch extra bytes, RowGroupWriter_NextColumn meta])
      = Some (ParquetException (rows_message (rg_current_column_index rg) (?n + int extra) ?n))"
    by (simp add: run_def written RowGroupWriter_NextColumn_def NextColumn_mismatch [OF cw2 differ nonneg] msg)
  have recorded: "rowgroup_num_rows (mb_row_group (rg_metadata ?rg')) = ?n"
    by (simp add: RowGroupMetaDataBuilder_set_num_rows_def)
  show ?thesis
  proof (intro exI conjI)
    show "RowGroupWriter_num_rows w = (Inr ?n, ?w')" by (rule num_rows)
    show "rgw_contents ?w' = Some ?rg'" by simp
    show "rg_num_rows ?rg' = ?n" by simp
    show "rowgroup_num_rows (mb_row_group (rg_metadata ?rg')) = ?n" by (rule recorded)
    show "fst (run (None, ?w') [RowGroupWriter_write_batch extra bytes, RowGroupWriter_Close])
      = Some (ParquetException (rows_message (rg_current_column_index rg) (?n + int extra) ?n))"
      by (rule close)
    show "fst (run (None, ?w') [RowGroupWriter_write_batch extra bytes, RowGroupWriter_NextColumn meta])
      = Some (ParquetException (rows_message (rg_current_column_index rg) (?n + int extra) ?n))"
      by (rule next_column)
  qed
qed

subsection \<open>Row counts across the columns of a row group\<close>

lemma and_then_assoc: "and_then (and_then m f) g = and_then m (\<lambda>s. and_then (f s) g)"
  by (cases m) (auto simp: and_then_def split: option.splits)

text \<open>Opening the next column behind an open column whose row count is acceptable.\<close>

lemma next_column_step:
  assumes w: "rgw_contents w = Some rg" and opened: "\<not> rg_closed rg"
    and cw: "rg_current_column_writer rg = Some cw" and rows: "cw_rows_written cw = int r0"
    and count: "rg_num_rows rg < 0 \<or>
                (rg_num_rows rg = int r0 \<and> rowgroup_num_rows (mb_row_group (rg_metadata rg)) = int r0)"
    and room: "mb_current_column (rg_metadata rg) < mb_num_columns (rg_metadata rg)"
  shows "\<exists>w' rg' cw'.
           and_then (RowGroupWriter_NextColumn [] w) (RowGroupWriter_write_batch r b) = (None, w')
         \<and> rgw_contents w' = Some rg' \<and> \<not> rg_closed rg'
         \<and> rg_current_column_writer rg' = Some cw' \<and> cw_rows_written cw' = int r
         \<and> rg_num_rows rg' = int r0
         \<and> rowgroup_num_rows (mb_row_group (rg_metadata rg')) = int r0
         \<and> rg_current_column_index rg' = rg_current_column_index rg + 1
         \<and> mb_current_column (rg_metadata rg') = mb_current_column (rg_metadata rg) + 1
         \<and> mb_num_columns (rg_metadata rg') = mb_num_columns (rg_metadata rg)"
proof -
  from count obtain rg1 where check: "check_open_column rg = (None, rg1)"
    and rg1: "rg_num_rows rg1 = int r0" "rowgroup_num_rows (mb_row_group (rg_metadata rg1)) = int r0"
      "rg_closed rg1 = rg_closed rg" "rg_current_column_writer rg1 = Some cw"
      "rg_current_column_index rg1 = rg_current_column_index rg"
      "mb_current_column (rg_metadata rg1) = mb_current_column (rg_metadata rg)"
      "mb_num_columns (rg_metadata rg1) = mb_num_columns (rg_metadata rg)"
  proof
    assume unset: "rg_num_rows rg < 0"
    show thesis
      by (rule that [OF check_open_column_first [OF cw unset]])
        (simp_all add: rows cw RowGroupMetaDataBuilder_set_num_rows_def)
  next
    assume set: "rg_num_rows rg = int r0 \<and> rowgroup_num_rows (mb_row_group (rg_metadata rg)) = int r0"
    show thesis
      by (rule that [OF check_open_column_agree [OF cw]]) (simp_all add: rows cw set)
  qed
  let ?b = "(rg_metadata rg1)\<lparr>mb_row_group := (mb_row_group (rg_metadata rg1))
                \<lparr>rowgroup_columns := rowgroup_columns (mb_row_group (rg_metadata rg1)) @ [[]]\<rparr>,
              mb_current_column := mb_current_column (rg_metadata rg1) + 1\<rparr>"
  let ?rg2 = "rg1\<lparr>rg_metadata := ?b,
                 rg_total_bytes_written := rg_total_bytes_written rg1 + ColumnWriter_Close cw,
                 rg_current_column_index := rg_current_column_index rg1 + 1,
                 rg_current_column_writer := Some ColumnWriter_Make\<rparr>"
  have chunk: "RowGroupMetaDataBuilder_NextColumnChunk [] (rg_metadata rg1) = (None, ?b)"
    using room rg1 by (simp add: RowGroupMetaDataBuilder_NextColumnChunk_def)
  have "RowGroupSerializer_NextColumn [] rg = (None, ?rg2)"
    by (simp add: RowGroupSerializer_NextColumn_def check chunk rg1 Let_def)
  then have next_column: "RowGroupWriter_NextColumn [] w = (None, w\<lparr>rgw_contents := Some ?rg2\<rparr>)"
    using w by (simp add: RowGroupWriter_NextColumn_def)
  let ?rg3 = "write_batch r b ?rg2"
  have batch: "RowGroupWriter_write_batch r b (w\<lparr>rgw_contents := Some ?rg2\<rparr>)
      = (None, w\<lparr>rgw_contents := Some ?rg3\<rparr>)"
    by (simp add: RowGroupWriter_write_batch_def)
  show ?thesis
  proof (intro exI conjI)
    show "and_then (RowGroupWriter_NextColumn [] w) (RowGroupWriter_write_batch r b)
        = (None, w\<lparr>rgw_contents := Some ?rg3\<rparr>)"
      by (simp add: next_column batch)
    show "rgw_contents (w\<lparr>rgw_contents := Some ?rg3\<rparr>) = Some ?rg3" by simp
    show "\<not> rg_closed ?rg3" using opened rg1 by (simp add: write_batch_def)
    show "rg_current_column_writer ?rg3 = Some (ColumnWriter_WriteBatch r b ColumnWriter_Make)"
      by (simp add: write_batch_def)
    show "cw_rows_written (ColumnWriter_WriteBatch r b ColumnWriter_Make) = int r"
      by (simp add: ColumnWriter_WriteBatch_def ColumnWriter_Make_def)
    show "rg_num_rows ?rg3 = int r0" using rg1 by (simp add: write_batch_def)
    show "rowgroup_num_rows (mb_row_group (rg_metadata ?rg3)) = int r0"
      using rg1 by (simp add: write_batch_def)
    show "rg_current_column_index ?rg3 = rg_current_column_index rg + 1"
      using rg1 by (simp add: write_batch_def)
    show "mb_current_column (rg_metadata ?rg3) = mb_current_column (rg_metadata rg) + 1"
      using rg1 by (simp add: write_batch_def)
    show "mb_num_columns (rg_metadata ?rg3) = mb_num_columns (rg_metadata rg)"
      using rg1 by (simp add: write_batch_def)
  qed
qed

text \<open>Any number of further columns with the same row count.\<close>

lemma write_columns_agreeing:
  assumes "rgw_contents w = Some rg" and "\<not> rg_closed rg"
    and "rg_current_column_writer rg = Some cw" and "cw_rows_written cw = int r0"
    and "rg_num_rows rg < 0 \<or>
         (rg_num_rows rg = int r0 \<and> rowgroup_num_rows (mb_row_group (rg_metadata rg)) = int r0)"
    and "mb_current_column (rg_metadata rg) + int (length bs) \<le> mb_num_columns (rg_metadata rg)"
  shows "\<exists>w' rg' cw'.
           write_columns (map (Pair r0) bs) w = (None, w')
         \<and> rgw_contents w' = Some rg' \<and> \<not> rg_closed rg'
         \<and> rg_current_column_writer rg' = Some cw' \<and> cw_rows_written cw' = int r0
         \<and> (rg_num_rows rg' < 0 \<or>
              (rg_num_rows rg' = int r0 \<and> rowgroup_num_rows (mb_row_group (rg_metadata rg')) = int r0))
         \<and> rg_current_column_index rg' = rg_current_column_index rg + int (length bs)
         \<and> mb_current_column (rg_metadata rg') = mb_current_column (rg_metadata rg) + int (length bs)
         \<and> mb_num_columns (rg_metadata rg') = mb_num_columns (rg_metadata rg)"
  using assms
proof (induction bs arbitrary: w rg cw)
  case Nil
  then show ?case by auto
next
  case (Cons b bs)
  from Cons.prems(6) have room: "mb_current_column (rg_metadata rg) < mb_num_columns (rg_metadata rg)"
    by simp
  from next_column_step [OF Cons.prems(1-5) room, of r0 b]
  obtain w1 rg1 cw1 where
    step: "and_then (RowGroupWriter_NextColumn [] w) (RowGroupWriter_write_batch r0 b) = (None, w1)"
    and 1: "rgw_contents w1 = Some rg1" "\<not> rg_closed rg1" "rg_current_column_writer rg1 = Some cw1"
      "cw_rows_written cw1 = int r0"
    and 2: "rg_num_rows rg1 = int r0" "rowgroup_num_rows (mb_row_group (rg_metadata rg1)) = int r0"
    and 3: "rg_current_column_index rg1 = rg_current_column_index rg + 1"
      "mb_current_column (rg_metadata rg1) = mb_current_column (rg_metadata rg) + 1"
      "mb_num_columns (rg_metadata rg1) = mb_num_columns (rg_metadata rg)"
    by blast
  have count1: "rg_num_rows rg1 < 0 \<or>
         (rg_num_rows rg1 = int r0 \<and> rowgroup_num_rows (mb_row_group (rg_metadata rg1)) = int r0)"
    using 2 by simp
  have room1: "mb_current_column (rg_metadata rg1) + int (length bs) \<le> mb_num_columns (rg_metadata rg1)"
    using Cons.prems(6) 3 by simp
  from Cons.IH [OF 1 count1 room1]
  obtain w' rg' cw' where
    rest: "write_columns (map (Pair r0) bs) w1 = (None, w')"
    and 4: "rgw_contents w' = Some rg'" "\<not> rg_closed rg'" "rg_current_column_writer rg' = Some cw'"
      "cw_rows_written cw' = int r0"
      "rg_num_rows rg' < 0 \<or>
         (rg_num_rows rg' = int r0 \<and> rowgroup_num_rows (mb_row_group (rg_metadata rg')) = int r0)"
      "rg_current_column_index rg' = rg_current_column_index rg1 + int (length bs)"
      "mb_current_column (rg_metadata rg') = mb_current_column (rg_metadata rg1) + int (length bs)"
      "mb_num_columns (rg_metadata rg') = mb_num_columns (rg_metadata rg1)"
    by blast
  have "write_columns (map (Pair r0) (b # bs)) w
      = and_then (and_then (RowGroupWriter_NextColumn [] w) (RowGroupWriter_write_batch r0 b))
          (write_columns (map (Pair r0) bs))"
    by (simp add: and_then_assoc)
  also have "\<dots> = (None, w')" by (simp add: step rest)
  finally have "write_columns (map (Pair r0) (b # bs)) w = (None, w')" .
  with 4 3 show ?case by auto
qed

lemma write_columns_append:
  "write_columns (xs @ ys) w = and_then (write_columns xs w) (write_columns ys)"
proof (induction xs arbitrary: w)
  case Nil
  then show ?case by simp
next
  case (Cons c cs)
  obtain r b where c: "c = (r, b)" by (cases c)
  have "write_columns (cs @ ys) = (\<lambda>s. and_then (write_columns cs s) (write_columns ys))"
    by (rule ext) (rule Cons.IH)
  then show ?case
    by (simp add: c and_then_assoc)
qed

text \<open>The first column of a new row group.\<close>

lemma first_column_step:
  assumes "0 < n"
  shows "\<exists>w' rg' cw'.
           and_then (RowGroupWriter_NextColumn [] (new_row_group_writer n)) (RowGroupWriter_write_batch r b)
             = (None, w')
         \<and> rgw_contents w' = Some rg' \<and> \<not> rg_closed rg'
         \<and> rg_current_column_writer rg' = Some cw' \<and> cw_rows_written cw' = int r
         \<and> rg_num_rows rg' < 0
         \<and> rg_current_column_index rg' = 1
         \<and> mb_current_column (rg_metadata rg') = 1
         \<and> mb_num_columns (rg_metadata rg') = n"
  using assms
  by (simp add: new_row_group_writer_def RowGroupWriter_Make_def RowGroupSerializer_Make_def
      RowGroupMetaDataBuilder_Make_def RowGroupWriter_NextColumn_def RowGroupSerializer_NextColumn_def
      check_open_column_def RowGroupMetaDataBuilder_NextColumnChunk_def ColumnWriter_Make_def
      RowGroupWriter_write_batch_def write_batch_def ColumnWriter_WriteBatch_def Let_def)

text \<open>Once the open column disagrees with the recorded count, the group cannot be finished.\<close>

lemma write_row_group_mismatch:
  assumes w: "rgw_contents w = Some rg" and opened: "\<not> rg_closed rg"
    and cw: "rg_current_column_writer rg = Some cw"
    and differ: "rg_num_rows rg \<noteq> cw_rows_written cw" and set: "0 \<le> rg_num_rows rg"
  shows "fst (write_row_group rest w)
     = Some (ParquetException
         (rows_message (rg_current_column_index rg) (cw_rows_written cw) (rg_num_rows rg)))"
proof (cases rest)
  case Nil
  then show ?thesis
    using w by (simp add: write_row_group_def RowGroupWriter_Close_def
        Close_mismatch [OF cw differ set opened])
next
  case (Cons c cs)
  obtain r b where c: "c = (r, b)" by (cases c)
  show ?thesis
    using w by (simp add: Cons c write_row_group_def RowGroupWriter_NextColumn_def
        NextColumn_mismatch [OF cw differ set])
qed

text \<open>Closing the group when every column of the schema was written with the same row count.\<close>

lemma Close_agreeing:
  assumes w: "rgw_contents w = Some rg" and opened: "\<not> rg_closed rg"
    and cw: "rg_current_column_writer rg = Some cw" and rows: "cw_rows_written cw = int r0"
    and count: "rg_num_rows rg < 0 \<or>
                (rg_num_rows rg = int r0 \<and> rowgroup_num_rows (mb_row_group (rg_metadata rg)) = int r0)"
    and full: "mb_current_column (rg_metadata rg) = mb_num_columns (rg_metadata rg)"
  shows "\<exists>w' rg'. RowGroupWriter_Close w = (None, w') \<and> rgw_contents w' = Some rg'
           \<and> rg_num_rows rg' = int r0
           \<and> rowgroup_num_rows (mb_row_group (rg_metadata rg')) = int r0"
proof -
  let ?rg0 = "rg\<lparr>rg_closed := True\<rparr>"
  have cw0: "rg_current_column_writer ?rg0 = Some cw" using cw by simp
  from count obtain rg1 where check: "check_open_column ?rg0 = (None, rg1)"
    and rg1: "rg_num_rows rg1 = int r0" "rowgroup_num_rows (mb_row_group (rg_metadata rg1)) = int r0"
      "mb_current_column (rg_metadata rg1) = mb_current_column (rg_metadata rg)"
      "mb_num_columns (rg_metadata rg1) = mb_num_columns (rg_metadata rg)"
  proof
    assume unset: "rg_num_rows rg < 0"
    then have unset0: "rg_num_rows ?rg0 < 0" by simp
    show thesis
      by (rule that [OF check_open_column_first [OF cw0 unset0]])
        (simp_all add: rows RowGroupMetaDataBuilder_set_num_rows_def)
  next
    assume set: "rg_num_rows rg = int r0 \<and> rowgroup_num_rows (mb_row_group (rg_metadata rg)) = int r0"
    show thesis
      by (rule that [OF check_open_column_agree [OF cw0]]) (simp_all add: rows set)
  qed
  have check': "RowGroupSerializer_CheckRowsWritten ?rg0 = (None, rg1)"
    using check cw0 by (simp add: check_open_column_def)
  let ?rg2 = "rg1\<lparr>rg_total_bytes_written := rg_total_bytes_written rg1 + ColumnWriter_Close cw,
                 rg_current_column_writer := None\<rparr>"
  let ?rg3 = "?rg2\<lparr>rg_metadata := (rg_metadata rg1)\<lparr>mb_row_group := (mb_row_group (rg_metadata rg1))
                  \<lparr>rowgroup_total_byte_size := rg_total_bytes_written ?rg2\<rparr>\<rparr>\<rparr>"
  have finish: "RowGroupMetaDataBuilder_Finish (rg_total_bytes_written ?rg2) (rg_metadata ?rg2)
      = (None, rg_metadata ?rg3)"
    using full rg1 by (simp add: RowGroupMetaDataBuilder_Finish_def)
  have "RowGroupSerializer_Close rg = (None, ?rg3)"
    using opened cw finish by (simp add: RowGroupSerializer_Close_def check' Let_def)
  then have "RowGroupWriter_Close w = (None, w\<lparr>rgw_contents := Some ?rg3\<rparr>)"
    using w by (simp add: RowGroupWriter_Close_def)
  moreover have "rg_num_rows ?rg3 = int r0" using rg1 by simp
  moreover have "rowgroup_num_rows (mb_row_group (rg_metadata ?rg3)) = int r0" using rg1 by simp
  ultimately show ?thesis by (intro exI [of _ "w\<lparr>rgw_contents := Some ?rg3\<rparr>"] exI [of _ ?rg3]) simp
qed

text \<open>Two batches written to the open column act as one batch of their rows and bytes.\<close>

lemma write_batch_twice:
  "and_then (RowGroupWriter_write_batch rows1 bytes1 w) (RowGroupWriter_write_batch rows2 bytes2)
     = RowGroupWriter_write_batch (rows1 + rows2) (bytes1 + bytes2) w"
proof (cases "rgw_contents w")
  case None
  then show ?thesis by (simp add: RowGroupWriter_write_batch_def)
next
  case (Some c)
  then show ?thesis
    by (cases "rg_current_column_writer c")
      (simp_all add: RowGroupWriter_write_batch_def write_batch_def ColumnWriter_WriteBatch_def)
qed

text \<open>
  C3 (as amended). For a caller that opens the columns of a row group one after the other,
  writes the rows of each column in one batch, and does not call \<open>num_rows()\<close> while a
  column is open: the row count of the first column becomes the row count of the group and
  is recorded in the row-group metadata; when every column of the schema has that many
  rows, the group closes with it. The first column whose row count differs makes its close
  raise an exception whose message carries one more than the index of that column (the
  number of columns opened so far in the group), its row count, and the row count of the
  first column.
\<close>

theorem row_count_agreement:
  "(int (Suc (length bs)) = n \<longrightarrow>
      (\<exists>w rg. write_row_group ((r0, b0) # map (Pair r0) bs) (new_row_group_writer n) = (None, w)
         \<and> rgw_contents w = Some rg \<and> rg_num_rows rg = int r0
         \<and> rowgroup_num_rows (mb_row_group (rg_metadata rg)) = int r0))
   \<and> (r \<noteq> r0 \<and> int (Suc (length bs)) + 1 + int (length rest) \<le> n \<longrightarrow>
      fst (write_row_group (((r0, b0) # map (Pair r0) bs) @ (r, b) # rest) (new_row_group_writer n))
        = Some (ParquetException (rows_message (int (length bs) + 2) (int r) (int r0))))"
proof (intro conjI impI)
  assume n: "int (Suc (length bs)) = n"
  then have "0 < n" by simp
  from first_column_step [OF this, of r0 b0]
  obtain w1 rg1 cw1 where
    first: "and_then (RowGroupWriter_NextColumn [] (new_row_group_writer n)) (RowGroupWriter_write_batch r0 b0)
             = (None, w1)"
    and 1: "rgw_contents w1 = Some rg1" "\<not> rg_closed rg1" "rg_current_column_writer rg1 = Some cw1"
      "cw_rows_written cw1 = int r0"
    and unset: "rg_num_rows rg1 < 0"
    and 2: "rg_current_column_index rg1 = 1" "mb_current_column (rg_metadata rg1) = 1"
      "mb_num_columns (rg_metadata rg1) = n"
    by blast
  have count1: "rg_num_rows rg1 < 0 \<or>
         (rg_num_rows rg1 = int r0 \<and> rowgroup_num_rows (mb_row_group (rg_metadata rg1)) = int r0)"
    using unset by simp
  have room1: "mb_current_column (rg_metadata rg1) + int (length bs) \<le> mb_num_columns (rg_metadata rg1)"
    using 2 n by simp
  from write_columns_agreeing [OF 1 count1 room1]
  obtain w2 rg2 cw2 where
    others: "write_columns (map (Pair r0) bs) w1 = (None, w2)"
    and 3: "rgw_contents w2 = Some rg2" "\<not> rg_closed rg2" "rg_current_column_writer rg2 = Some cw2"
      "cw_rows_written cw2 = int r0"
      "rg_num_rows rg2 < 0 \<or>
         (rg_num_rows rg2 = int r0 \<and> rowgroup_num_rows (mb_row_group (rg_metadata rg2)) = int r0)"
    and 4: "mb_current_column (rg_metadata rg2) = mb_current_column (rg_metadata rg1) + int (length bs)"
      "mb_num_columns (rg_metadata rg2) = mb_num_columns (rg_metadata rg1)"
    by blast
  have full: "mb_current_column (rg_metadata rg2) = mb_num_columns (rg_metadata rg2)"
    using 2 4 n by simp
  have "write_columns ((r0, b0) # map (Pair r0) bs) (new_row_group_writer n)
      = and_then (and_then (RowGroupWriter_NextColumn [] (new_row_group_writer n))
                    (RowGroupWriter_write_batch r0 b0))
          (write_columns (map (Pair r0) bs))"
    by (simp add: and_then_assoc)
  then have columns: "write_columns ((r0, b0) # map (Pair r0) bs) (new_row_group_writer n) = (None, w2)"
    by (simp add: first others)
  have "write_row_group ((r0, b0) # map (Pair r0) bs) (new_row_group_writer n) = RowGroupWriter_Close w2"
    by (simp only: write_row_group_def columns and_then_return)
  with Close_agreeing [OF 3 full]
  show "\<exists>w rg. write_row_group ((r0, b0) # map (Pair r0) bs) (new_row_group_writer n) = (None, w)
         \<and> rgw_contents w = Some rg \<and> rg_num_rows rg = int r0
         \<and> rowgroup_num_rows (mb_row_group (rg_metadata rg)) = int r0"
    by simp
next
  assume "r \<noteq> r0 \<and> int (Suc (length bs)) + 1 + int (length rest) \<le> n"
  then have differ: "r \<noteq> r0" and n: "int (Suc (length bs)) + 1 + int (length rest) \<le> n"
    by simp_all
  from n have "0 < n" by simp
  from first_column_step [OF this, of r0 b0]
  obtain w1 rg1 cw1 where
    first: "and_then (RowGroupWriter_NextColumn [] (new_row_group_writer n)) (RowGroupWriter_write_batch r0 b0)
             = (None, w1)"
    and 1: "rgw_contents w1 = Some rg1" "\<not> rg_closed rg1" "rg_current_column_writer rg1 = Some cw1"
      "cw_rows_written cw1 = int r0"
    and unset: "rg_num_rows rg1 < 0"
    and 2: "rg_current_column_index rg1 = 1" "mb_current_column (rg_metadata rg1) = 1"
      "mb_num_columns (rg_metadata rg1) = n"
    by blast
  have count1: "rg_num_rows rg1 < 0 \<or>
         (rg_num_rows rg1 = int r0 \<and> rowgroup_num_rows (mb_row_group (rg_metadata rg1)) = int r0)"
    using unset by simp
  have room1: "mb_current_column (rg_metadata rg1) + int (length bs) \<le> mb_num_columns (rg_metadata rg1)"
    using 2 n by simp
  from write_columns_agreeing [OF 1 count1 room1]
  obtain w2 rg2 cw2 where
    others: "write_columns (map (Pair r0) bs) w1 = (None, w2)"
    and 3: "rgw_contents w2 = Some rg2" "\<not> rg_closed rg2" "rg_current_column_writer rg2 = Some cw2"
      "cw_rows_written cw2 = int r0"
      "rg_num_rows rg2 < 0 \<or>
         (rg_num_rows rg2 = int r0 \<and> rowgroup_num_rows (mb_row_group (rg_metadata rg2)) = int r0)"
    and 4: "rg_current_column_index rg2 = rg_current_column_index rg1 + int (length bs)"
      "mb_current_column (rg_metadata rg2) = mb_current_column (rg_metadata rg1) + int (length bs)"
      "mb_num_columns (rg_metadata rg2) = mb_num_columns (rg_metadata rg1)"
    by blast
  have room2: "mb_current_column (rg_metadata rg2) < mb_num_columns (rg_metadata rg2)"
    using 2 4 n by simp
  from next_column_step [OF 3 room2, of r b]
  obtain w3 rg3 cw3 where
    offending: "and_then (RowGroupWriter_NextColumn [] w2) (RowGroupWriter_write_batch r b) = (None, w3)"
    and 5: "rgw_contents w3 = Some rg3" "\<not> rg_closed rg3" "rg_current_column_writer rg3 = Some cw3"
    and 6: "cw_rows_written cw3 = int r" "rg_num_rows rg3 = int r0"
      "rg_current_column_index rg3 = rg_current_column_index rg2 + 1"
    by blast
  have differ3: "rg_num_rows rg3 \<noteq> cw_rows_written cw3" using differ 6 by simp
  have set3: "0 \<le> rg_num_rows rg3" using 6 by simp
  have "write_columns (((r0, b0) # map (Pair r0) bs) @ (r, b) # rest) (new_row_group_writer n)
      = and_then (and_then (RowGroupWriter_NextColumn [] (new_row_group_writer n))
                    (RowGroupWriter_write_batch r0 b0))
          (write_columns (map (Pair r0) bs @ (r, b) # rest))"
    by (simp add: and_then_assoc)
  also have "\<dots> = write_columns (map (Pair r0) bs @ (r, b) # rest) w1"
    by (simp add: first)
  also have "\<dots> = and_then (write_columns (map (Pair r0) bs) w1) (write_columns ((r, b) # rest))"
    by (rule write_columns_append)
  also have "\<dots> = and_then (and_then (RowGroupWriter_NextColumn [] w2) (RowGroupWriter_write_batch r b))
                     (write_columns rest)"
    by (simp add: others and_then_assoc)
  also have "\<dots> = write_columns rest w3" by (simp add: offending)
  finally have "write_row_group (((r0, b0) # map (Pair r0) bs) @ (r, b) # rest) (new_row_group_writer n)
      = write_row_group rest w3"
    by (simp add: write_row_group_def)
  then show "fst (write_row_group (((r0, b0) # map (Pair r0) bs) @ (r, b) # rest) (new_row_group_writer n))
      = Some (ParquetException (rows_message (int (length bs) + 2) (int r) (int r0)))"
    using write_row_group_mismatch [OF 5 differ3 set3, of rest] 6 4 2 by (simp add: add.commute)
qed


theorem row_count_agreement_witness:
  "(\<exists>w rg. write_row_group [(100, 800), (100, 400)] (new_row_group_writer 2) = (None, w)
       \<and> rgw_contents w = Some rg \<and> rg_num_rows rg = 100
       \<and> rowgroup_num_rows (mb_row_group (rg_metadata rg)) = 100)
   \<and> fst (write_row_group [(100, 800), (100, 400), (99, 396), (100, 400)] (new_row_group_writer 4))
       = Some (ParquetException ''Column 3 had 99 while previous column had 100'')"
proof -
  have message: "rows_message 3 99 100 = ''Column 3 had 99 while previous column had 100''"
    by (simp add: rows_message_def show_int_def decimal.simps)
  from row_count_agreement [of "[400]" 2 100 800 99 "[]" 396]
  have agree: "\<exists>w rg. write_row_group [(100, 800), (100, 400)] (new_row_group_writer 2) = (None, w)
       \<and> rgw_contents w = Some rg \<and> rg_num_rows rg = 100
       \<and> rowgroup_num_rows (mb_row_group (rg_metadata rg)) = 100"
    by simp
  from row_count_agreement [of "[400]" 4 100 800 99 "[(100, 400)]" 396]
  have "fst (write_row_group [(100, 800), (100, 400), (99, 396), (100, 400)] (new_row_group_writer 4))
       = Some (ParquetException (rows_message 3 99 100))"
    by simp
  with agree message show ?thesis by simp
qed

text \<open>
  C3 as stated fails on its own example: after column 0 closes with 100 rows, closing
  column 1 with 99 rows raises an exception that names column 2, not column 1. It also
  fails when \<open>num_rows()\<close> is called while the first column is open with 100 rows: the
  row count of the group is then 100, and not the 150 rows that the first column reports
  when it closes, which raises the exception although no column has closed before.
\<close>

theorem column_2_named_and_open_column_rejected:
  "fst (write_row_group [(100, 800), (99, 792)] (new_row_group_writer 2))
     = Some (ParquetException ''Column 2 had 99 while previous column had 100'')
   \<and> fst (write_row_group [(100, 800), (99, 792)] (new_row_group_writer 2))
     \<noteq> Some (ParquetException (rows_message 1 99 100))
   \<and> fst (run (None, new_row_group_writer 2)
            [RowGroupWriter_NextColumn [], RowGroupWriter_write_batch 100 800,
             RowGroupWriter_call_num_rows, RowGroupWriter_write_batch 50 400])
       = None
   \<and> map_option rg_num_rows (rgw_contents (snd (run (None, new_row_group_writer 2)
            [RowGroupWriter_NextColumn [], RowGroupWriter_write_batch 100 800,
             RowGroupWriter_call_num_rows, RowGroupWriter_write_batch 50 400])))
       = Some 100
   \<and> map_option (map_option cw_rows_written \<circ> rg_current_column_writer)
        (rgw_contents (snd (run (None, new_row_group_writer 2)
            [RowGroupWriter_NextColumn [], RowGroupWriter_write_batch 100 800,
             RowGroupWriter_call_num_rows, RowGroupWriter_write_batch 50 400])))
       = Some (Some 150)
   \<and> fst (run (None, new_row_group_writer 2)
            [RowGroupWriter_NextColumn [], RowGroupWriter_write_batch 100 800,
             RowGroupWriter_call_num_rows, RowGroupWriter_write_batch 50 400,
             RowGroupWriter_NextColumn []])
       = Some (ParquetException ''Column 1 had 150 while previous column had 100'')"
  by (simp add: write_row_group_def run_def new_row_group_writer_def RowGroupWriter_Make_def
      RowGroupSerializer_Make_def RowGroupMetaDataBuilder_Make_def RowGroupWriter_NextColumn_def
      RowGroupSerializer_NextColumn_def check_open_column_def RowGroupSerializer_CheckRowsWritten_def
      RowGroupMetaDataBuilder_NextColumnChunk_def RowGroupMetaDataBuilder_set_num_rows_def
      ColumnWriter_Make_def ColumnWriter_rows_written_def ColumnWriter_Close_def
      RowGroupWriter_write_batch_def write_batch_def ColumnWriter_WriteBatch_def
      RowGroupWriter_Close_def RowGroupSerializer_Close_def
      RowGroupWriter_call_num_rows_def RowGroupWriter_num_rows_def RowGroupSerializer_num_rows_def
      rows_message_def show_int_def decimal.simps Let_def)

subsection \<open>\<open>num_rows()\<close> on an open column\<close>

text \<open>
  C10. While a column is open and no row count is recorded for the group yet (no column
  has closed, and \<open>num_rows()\<close> was not called before), \<open>num_rows()\<close> returns the rows
  the column has written so far and records them as the row count of the group, in the
  serializer and in the row-group metadata. If the same column then writes more rows,
  closing it, through \<open>Close\<close> or the next \<open>NextColumn\<close>, raises the row-count
  exception, although no other column was written. In particular this holds for the first
  column of a new row group.
\<close>

theorem num_rows_fixes_count_of_open_column:
  "(rgw_contents w = Some rg \<and> \<not> rg_closed rg \<and> rg_current_column_writer rg = Some cw
      \<and> rg_num_rows rg < 0 \<and> 0 \<le> cw_rows_written cw \<and> 0 < extra
    \<longrightarrow> (\<exists>w' rg'. RowGroupWriter_num_rows w = (Inr (cw_rows_written cw), w')
           \<and> rgw_contents w' = Some rg'
           \<and> rg_num_rows rg' = cw_rows_written cw
           \<and> rowgroup_num_rows (mb_row_group (rg_metadata rg')) = cw_rows_written cw
           \<and> fst (run (None, w') [RowGroupWriter_write_batch extra bytes, RowGroupWriter_Close])
               = Some (ParquetException (rows_message (rg_current_column_index rg)
                         (cw_rows_written cw + int extra) (cw_rows_written cw)))
           \<and> fst (run (None, w') [RowGroupWriter_write_batch extra bytes, RowGroupWriter_NextColumn meta])
               = Some (ParquetException (rows_message (rg_current_column_index rg)
                         (cw_rows_written cw + int extra) (cw_rows_written cw)))))
   \<and> (0 < n \<and> 0 < extra
    \<longrightarrow> (\<exists>w1 w2 rg2.
             run (None, new_row_group_writer n)
               [RowGroupWriter_NextColumn [], RowGroupWriter_write_batch rows bytes0] = (None, w1)
           \<and> RowGroupWriter_num_rows w1 = (Inr (int rows), w2)
           \<and> rgw_contents w2 = Some rg2
           \<and> rg_num_rows rg2 = int rows
           \<and> rowgroup_num_rows (mb_row_group (rg_metadata rg2)) = int rows
           \<and> fst (run (None, w2) [RowGroupWriter_write_batch extra bytes, RowGroupWriter_Close])
               = Some (ParquetException (rows_message 1 (int rows + int extra) (int rows)))
           \<and> fst (run (None, w2) [RowGroupWriter_write_batch extra bytes, RowGroupWriter_NextColumn meta])
               = Some (ParquetException (rows_message 1 (int rows + int extra) (int rows)))))"
proof (intro conjI impI)
  assume "rgw_contents w = Some rg \<and> \<not> rg_closed rg \<and> rg_current_column_writer rg = Some cw
      \<and> rg_num_rows rg < 0 \<and> 0 \<le> cw_rows_written cw \<and> 0 < extra"
  then have "rgw_contents w = Some rg" and "\<not> rg_closed rg" and "rg_current_column_writer rg = Some cw"
    and "rg_num_rows rg < 0" and "0 \<le> cw_rows_written cw" and "0 < extra"
    by simp_all
  then show "\<exists>w' rg'. RowGroupWriter_num_rows w = (Inr (cw_rows_written cw), w')
           \<and> rgw_contents w' = Some rg'
           \<and> rg_num_rows rg' = cw_rows_written cw
           \<and> rowgroup_num_rows (mb_row_group (rg_metadata rg')) = cw_rows_written cw
           \<and> fst (run (None, w') [RowGroupWriter_write_batch extra bytes, RowGroupWriter_Close])
               = Some (ParquetException (rows_message (rg_current_column_index rg)
                         (cw_rows_written cw + int extra) (cw_rows_written cw)))
           \<and> fst (run (None, w') [RowGroupWriter_write_batch extra bytes, RowGroupWriter_NextColumn meta])
               = Some (ParquetException (rows_message (rg_current_column_index rg)
                         (cw_rows_written cw + int extra) (cw_rows_written cw)))"
    by (rule num_rows_on_open_column)
next
  assume "0 < n \<and> 0 < extra"
  then have n: "0 < n" and extra: "0 < extra" by simp_all
  from first_column_step [OF n, of rows bytes0]
  obtain w1 rg1 cw1 where
    first: "and_then (RowGroupWriter_NextColumn [] (new_row_group_writer n))
              (RowGroupWriter_write_batch rows bytes0) = (None, w1)"
    and 1: "rgw_contents w1 = Some rg1" "\<not> rg_closed rg1" "rg_current_column_writer rg1 = Some cw1"
    and rows: "cw_rows_written cw1 = int rows"
    and unset: "rg_num_rows rg1 < 0"
    and index: "rg_current_column_index rg1 = 1"
    by blast
  have nonneg: "0 \<le> cw_rows_written cw1" using rows by simp
  have run1: "run (None, new_row_group_writer n)
               [RowGroupWriter_NextColumn [], RowGroupWriter_write_batch rows bytes0] = (None, w1)"
    using first by (simp add: run_def)
  from num_rows_on_open_column [OF 1 unset nonneg extra, of bytes meta] run1
  show "\<exists>w1 w2 rg2.
             run (None, new_row_group_writer n)
               [RowGroupWriter_NextColumn [], RowGroupWriter_write_batch rows bytes0] = (None, w1)
           \<and> RowGroupWriter_num_rows w1 = (Inr (int rows), w2)
           \<and> rgw_contents w2 = Some rg2
           \<and> rg_num_rows rg2 = int rows
           \<and> rowgroup_num_rows (mb_row_group (rg_metadata rg2)) = int rows
           \<and> fst (run (None, w2) [RowGroupWriter_write_batch extra bytes, RowGroupWriter_Close])
               = Some (ParquetException (rows_message 1 (int rows + int extra) (int rows)))
           \<and> fst (run (None, w2) [RowGroupWriter_write_batch extra bytes, RowGroupWriter_NextColumn meta])
               = Some (ParquetException (rows_message 1 (int rows + int extra) (int rows)))"
    unfolding rows index by blast
qed

theorem num_rows_fixes_count_of_open_column_witness:
  "rgw_contents first_column_open
     = Some \<lparr>rg_metadata =
                \<lparr>mb_row_group = \<lparr>rowgroup_columns = [[]], rowgroup_total_byte_size = 0, rowgroup_num_rows = 0\<rparr>,
                 mb_num_columns = 2, mb_current_column = 1\<rparr>,
              rg_total_bytes_written = 0, rg_closed = False, rg_current_column_index = 1,
              rg_num_rows = - 1,
              rg_current_column_writer = Some \<lparr>cw_rows_written = 100, cw_total_bytes = 800\<rparr>\<rparr>
   \<and> fst (RowGroupWriter_num_rows first_column_open) = Inr 100
   \<and> fst (run (None, snd (RowGroupWriter_num_rows first_column_open))
              [RowGroupWriter_write_batch 50 400, RowGroupWriter_Close])
       = Some (ParquetException ''Column 1 had 150 while previous column had 100'')
   \<and> fst (run (None, snd (RowGroupWriter_num_rows first_column_open))
              [RowGroupWriter_write_batch 50 400, RowGroupWriter_NextColumn []])
       = Some (ParquetException ''Column 1 had 150 while previous column had 100'')
   \<and> (\<exists>w1 w2. run (None, new_row_group_writer 2)
               [RowGroupWriter_NextColumn [], RowGroupWriter_write_batch 100 800] = (None, w1)
           \<and> RowGroupWriter_num_rows w1 = (Inr 100, w2)
           \<and> fst (run (None, w2) [RowGroupWriter_write_batch 50 400, RowGroupWriter_Close])
               = Some (ParquetException ''Column 1 had 150 while previous column had 100''))"
proof -
  let ?cw = "\<lparr>cw_rows_written = 100, cw_total_bytes = 800\<rparr>"
  let ?rg = "\<lparr>rg_metadata =
                \<lparr>mb_row_group = \<lparr>rowgroup_columns = [[]], rowgroup_total_byte_size = 0, rowgroup_num_rows = 0\<rparr>,
                 mb_num_columns = 2, mb_current_column = 1\<rparr>,
              rg_total_bytes_written = 0, rg_closed = False, rg_current_column_index = 1,
              rg_num_rows = - 1,
              rg_current_column_writer = Some ?cw\<rparr>"
  have contents: "rgw_contents first_column_open = Some ?rg"
    by (simp add: first_column_open_def run_def new_row_group_writer_def RowGroupWriter_Make_def
        RowGroupSerializer_Make_def RowGroupMetaDataBuilder_Make_def RowGroupWriter_NextColumn_def
        RowGroupSerializer_NextColumn_def check_open_column_def
        RowGroupMetaDataBuilder_NextColumnChunk_def ColumnWriter_Make_def
        RowGroupWriter_write_batch_def write_batch_def ColumnWriter_WriteBatch_def Let_def)
  have message: "rows_message 1 150 100 = ''Column 1 had 150 while previous column had 100''"
    by (simp add: rows_message_def show_int_def decimal.simps)
  note claim = num_rows_fixes_count_of_open_column
    [of first_column_open ?rg ?cw 50 400 "[]" 2 100 800]
  have state: "rgw_contents first_column_open = Some ?rg \<and> \<not> rg_closed ?rg
      \<and> rg_current_column_writer ?rg = Some ?cw
      \<and> rg_num_rows ?rg < 0 \<and> 0 \<le> cw_rows_written ?cw \<and> 0 < (50::nat)"
    using contents by simp
  have new: "0 < (2::int) \<and> 0 < (50::nat)" by simp
  from mp [OF conjunct1 [OF claim] state] message
  have first: "fst (RowGroupWriter_num_rows first_column_open) = Inr 100
   \<and> fst (run (None, snd (RowGroupWriter_num_rows first_column_open))
              [RowGroupWriter_write_batch 50 400, RowGroupWriter_Close])
       = Some (ParquetException ''Column 1 had 150 while previous column had 100'')
   \<and> fst (run (None, snd (RowGroupWriter_num_rows first_column_open))
              [RowGroupWriter_write_batch 50 400, RowGroupWriter_NextColumn []])
       = Some (ParquetException ''Column 1 had 150 while previous column had 100'')"
    by auto
  from mp [OF conjunct2 [OF claim] new] message
  have "\<exists>w1 w2. run (None, new_row_group_writer 2)
               [RowGroupWriter_NextColumn [], RowGroupWriter_write_batch 100 800] = (None, w1)
           \<and> RowGroupWriter_num_rows w1 = (Inr 100, w2)
           \<and> fst (run (None, w2) [RowGroupWriter_write_batch 50 400, RowGroupWriter_Close])
               = Some (ParquetException ''Column 1 had 150 while previous column had 100'')"
    by auto
  with contents first show ?thesis by blast
qed

subsection \<open>The file: row total, layout, closing and destruction\<close>

lemma uint32_bytes_length: "length (uint32_bytes w) = 4"
  by (simp add: uint32_bytes_def)

lemma four_bytes_of_int:
  fixes x :: int
  assumes "0 \<le> x" and "x < 4294967296"
  shows "x = x mod 256 + 256 * (x div 256 mod 256) + 65536 * (x div 65536 mod 256)
             + 16777216 * (x div 16777216 mod 256)"
proof -
  have b_eq: "x div 256 div 256 = x div 65536"
    by (simp add: zdiv_zmult2_eq [symmetric])
  have c_eq: "x div 65536 div 256 = x div 16777216"
    by (simp add: zdiv_zmult2_eq [symmetric])
  have 1: "x = 256 * (x div 256) + x mod 256" by simp
  have "x div 256 = 256 * (x div 256 div 256) + x div 256 mod 256" by simp
  then have 2: "x div 256 = 256 * (x div 65536) + x div 256 mod 256" by (simp only: b_eq)
  have "x div 65536 = 256 * (x div 65536 div 256) + x div 65536 mod 256" by simp
  then have 3: "x div 65536 = 256 * (x div 16777216) + x div 65536 mod 256" by (simp only: c_eq)
  have 5: "x = 16777216 * (x div 16777216) + x mod 16777216" by simp
  have 6: "0 \<le> x mod 16777216" by simp
  have 7: "0 \<le> x div 16777216" using assms(1) by (simp add: div_int_pos_iff)
  from 5 6 assms(2) have "x div 16777216 < 256" by linarith
  with 7 have 4: "x div 16777216 mod 256 = x div 16777216" by simp
  from 1 2 3 4 show ?thesis by linarith
qed

lemma uint32_bytes_value:
  "uint w = uint (uint32_bytes w ! 0) + 256 * uint (uint32_bytes w ! 1)
            + 65536 * uint (uint32_bytes w ! 2) + 16777216 * uint (uint32_bytes w ! 3)"
proof -
  have bound: "uint w < 4294967296" using uint_bounded [of w] by simp
  have nonneg: "0 \<le> uint w" by simp
  have bytes: "uint (ucast w :: u8) = uint w mod 256"
      "uint (ucast (drop_bit 8 w) :: u8) = uint w div 256 mod 256"
      "uint (ucast (drop_bit 16 w) :: u8) = uint w div 65536 mod 256"
      "uint (ucast (drop_bit 24 w) :: u8) = uint w div 16777216 mod 256"
    by (simp_all add: unsigned_ucast_eq unsigned_drop_bit_eq take_bit_eq_mod drop_bit_eq_div uint_div)
  have "uint32_bytes w ! 0 = ucast w" "uint32_bytes w ! 1 = ucast (drop_bit 8 w)"
    "uint32_bytes w ! 2 = ucast (drop_bit 16 w)" "uint32_bytes w ! 3 = ucast (drop_bit 24 w)"
    by (simp_all add: uint32_bytes_def numeral_3_eq_3)
  with four_bytes_of_int [OF nonneg bound] show ?thesis
    by (simp only: bytes)
qed

lemma close_last_row_group_keeps:
  assumes "close_last_row_group fs = (e, fs1)"
  shows "fs_sink fs1 = fs_sink fs" and "fs_class fs1 = fs_class fs" and "fs_is_open fs1 = fs_is_open fs"
    and "fs_metadata fs1 = fs_metadata fs" and "fs_old_file_meta fs1 = fs_old_file_meta fs"
    and "fs_num_row_groups fs1 = fs_num_row_groups fs"
  using assms
  by (auto simp: close_last_row_group_def Let_def split: option.splits prod.splits sum.splits)

lemma reset_row_group_writer_keeps:
  "fs_sink (reset_row_group_writer new fs) = fs_sink fs"
  "fs_class (reset_row_group_writer new fs) = fs_class fs"
  "fs_is_open (reset_row_group_writer new fs) = fs_is_open fs"
  "fs_old_file_meta (reset_row_group_writer new fs) = fs_old_file_meta fs"
  "fs_num_rows (reset_row_group_writer new fs) = fs_num_rows fs"
  "fs_num_row_groups (reset_row_group_writer new fs) = fs_num_row_groups fs"
  "fs_row_group_writer (reset_row_group_writer new fs) = new"
  by (simp_all add: reset_row_group_writer_def Let_def)


lemma FileSerializer_Close_NoneE:
  assumes "fs_is_open fs" and "FileSerializer_Close serialize fs = (None, fs')"
  obtains fs1 fs2 where "close_last_row_group fs = (None, fs1)"
    and "WriteMetaData serialize (reset_row_group_writer None fs1) = (None, fs2)"
    and "fs' = fs2\<lparr>fs_sink := (fs_sink fs2)\<lparr>sink_closed := True\<rparr>, fs_is_open := False\<rparr>"
proof -
  from assms have "\<exists>fs1 fs2. close_last_row_group fs = (None, fs1)
      \<and> WriteMetaData serialize (reset_row_group_writer None fs1) = (None, fs2)
      \<and> (None, fs2\<lparr>fs_sink := (fs_sink fs2)\<lparr>sink_closed := True\<rparr>, fs_is_open := False\<rparr>) = (None, fs')"
    by (simp add: FileSerializer_Close_def Let_def and_then_None Sink_Close_def)
  then show thesis using that by blast
qed

text \<open>An exception of the row group or of the footer write leaves \<open>Close\<close> as it is.\<close>

lemma FileSerializer_Close_row_group_raises:
  assumes "fs_is_open fs" and "close_last_row_group fs = (Some e, fs1)"
  shows "FileSerializer_Close serialize fs = (Some e, fs1)"
  using assms by (simp add: FileSerializer_Close_def)

lemma FileSerializer_Close_footer_raises:
  assumes "fs_is_open fs" and "close_last_row_group fs = (None, fs1)"
    and "WriteMetaData serialize (reset_row_group_writer None fs1) = (Some e, fs2)"
  shows "FileSerializer_Close serialize fs = (Some e, fs2)"
  using assms by (simp add: FileSerializer_Close_def Let_def)

lemma try_catch_all_fst: "fst (try_catch_all r) \<in> {None, Some NullDereference}"
  by (cases r) (auto simp: try_catch_all_def split: option.splits error.splits)

lemma try_catch_all_swallows:
  "e \<noteq> NullDereference \<Longrightarrow> try_catch_all (Some e, s) = (None, s)"
  by (cases e) (simp_all add: try_catch_all_def)

lemma try_catch_all_return: "try_catch_all (None, s) = (None, s)"
  by (simp add: try_catch_all_def)




lemma WriteMetaData_keeps_row_group_writer:
  assumes "WriteMetaData serialize fs = (None, fs')"
  shows "fs_row_group_writer fs' = fs_row_group_writer fs"
proof (cases "fs_class fs")
  case FileSerializer_class
  with assms have "FileSerializer_WriteMetaData serialize fs = (None, fs')"
    by (simp add: WriteMetaData_def)
  then obtain s' where "fs' = fs\<lparr>fs_sink := s'\<rparr>" by (rule FileSerializer_WriteMetaData_NoneE)
  then show ?thesis by simp
next
  case ZdbFileSerializer_class
  with assms have "ZdbFileSerializer_WriteMetaData serialize fs = (None, fs')"
    by (simp add: WriteMetaData_def)
  then obtain old s' where "fs' = fs\<lparr>fs_sink := s'\<rparr>" by (rule ZdbFileSerializer_WriteMetaData_NoneE)
  then show ?thesis by simp
qed

lemma uint_word_of_nat_32: "uint (word_of_nat n :: u32) = int n mod 2 ^ 32"
proof -
  have "uint (word_of_nat n :: u32) = int (unat (word_of_nat n :: u32))" by simp
  also have "\<dots> = int (n mod 2 ^ 32)" by (simp only: unat_of_nat) simp
  also have "\<dots> = int n mod 2 ^ 32" by (simp add: zmod_int)
  finally show ?thesis .
qed

lemma plain_WriteMetaData:
  "fs_class fs = FileSerializer_class \<Longrightarrow> WriteMetaData serialize fs = FileSerializer_WriteMetaData serialize fs"
  by (simp add: WriteMetaData_def)

text \<open>
  C1, evaluated on the file-totals example of the specification (row groups of 100 and 50
  rows): \<open>AppendRowGroup\<close> never changes the running row total; after \<open>Close\<close> the
  row-group metadata holds 100 and 50 rows, \<open>num_row_groups()\<close> is 2, and \<open>num_rows()\<close>
  of the serializer is 50, the row count of the last group alone. On the public writer,
  \<open>Close\<close> resets the contents, so that \<open>num_rows()\<close> after it dereferences a null
  pointer.
\<close>

theorem two_row_groups_num_rows:
  "fs_num_rows (snd (FileSerializer_AppendRowGroup fs)) = fs_num_rows fs
   \<and> fst two_row_groups = None
   \<and> map rowgroup_num_rows (fmb_row_groups (fs_metadata (snd two_row_groups))) = [100, 50]
   \<and> FileSerializer_num_row_groups (snd two_row_groups) = 2
   \<and> FileSerializer_num_rows (snd two_row_groups) = 50
   \<and> fst two_row_groups_written = None
   \<and> ParquetFileWriter_Close sample_serialize \<lparr>pfw_contents = Some (snd two_row_groups_written)\<rparr>
       = (None, \<lparr>pfw_contents = None\<rparr>)
   \<and> ParquetFileWriter_num_rows \<lparr>pfw_contents = None\<rparr> = Inl NullDereference"
proof -
  have append: "fs_num_rows (snd (FileSerializer_AppendRowGroup fs)) = fs_num_rows fs"
    by (auto simp: FileSerializer_AppendRowGroup_def and_then_def Let_def reset_row_group_writer_keeps
        split: option.splits prod.splits)
  have written: "two_row_groups_written =
    (None,
     \<lparr>fs_class = FileSerializer_class,
      fs_sink = \<lparr>sink_data = PARQUET_MAGIC, sink_closed = False, sink_room = None\<rparr>,
      fs_is_open = True, fs_num_row_groups = 2, fs_num_rows = 0,
      fs_metadata =
        \<lparr>fmb_num_columns = 1, fmb_key_value_metadata = None,
         fmb_row_groups =
           [\<lparr>rowgroup_columns = [[]], rowgroup_total_byte_size = 800, rowgroup_num_rows = 100\<rparr>]\<rparr>,
      fs_row_group_writer =
        Some \<lparr>rgw_contents =
          Some \<lparr>rg_metadata =
                  \<lparr>mb_row_group =
                     \<lparr>rowgroup_columns = [[]], rowgroup_total_byte_size = 0, rowgroup_num_rows = 0\<rparr>,
                   mb_num_columns = 1, mb_current_column = 1\<rparr>,
                rg_total_bytes_written = 0, rg_closed = False, rg_current_column_index = 1,
                rg_num_rows = - 1,
                rg_current_column_writer = Some \<lparr>cw_rows_written = 50, cw_total_bytes = 400\<rparr>\<rparr>\<rparr>,
      fs_old_file_meta = None\<rparr>)"
    by (simp add: two_row_groups_written_def run_def
      FileSerializer_Make_def FileSerializer_StartFile_def sink_write_def Sink_Write_def new_sink_def
      FileMetaDataBuilder_Make_def FileSerializer_AppendRowGroup_def FileMetaDataBuilder_AppendRowGroup_def
      reset_row_group_writer_def FileMetaDataBuilder_return_slot_def on_row_group_def
      RowGroupWriter_Make_def RowGroupSerializer_Make_def RowGroupMetaDataBuilder_Make_def
      RowGroupWriter_NextColumn_def RowGroupSerializer_NextColumn_def check_open_column_def
      RowGroupSerializer_CheckRowsWritten_def RowGroupMetaDataBuilder_NextColumnChunk_def
      RowGroupMetaDataBuilder_set_num_rows_def RowGroupMetaDataBuilder_Finish_def
      ColumnWriter_Make_def ColumnWriter_rows_written_def ColumnWriter_Close_def
      RowGroupWriter_write_batch_def write_batch_def ColumnWriter_WriteBatch_def
      RowGroupWriter_Close_def RowGroupSerializer_Close_def Let_def)
  have closed: "two_row_groups =
    (None,
     \<lparr>fs_class = FileSerializer_class,
      fs_sink = \<lparr>sink_data = PARQUET_MAGIC @ [100, 50, 150] @ [3, 0, 0, 0] @ PARQUET_MAGIC,
                 sink_closed = True, sink_room = None\<rparr>,
      fs_is_open = False, fs_num_row_groups = 2, fs_num_rows = 50,
      fs_metadata =
        \<lparr>fmb_num_columns = 1, fmb_key_value_metadata = None,
         fmb_row_groups =
           [\<lparr>rowgroup_columns = [[]], rowgroup_total_byte_size = 800, rowgroup_num_rows = 100\<rparr>,
            \<lparr>rowgroup_columns = [[]], rowgroup_total_byte_size = 400, rowgroup_num_rows = 50\<rparr>]\<rparr>,
      fs_row_group_writer = None,
      fs_old_file_meta = None\<rparr>)"
    unfolding two_row_groups_def written
    by (simp add: sink_write_def Sink_Write_def
      reset_row_group_writer_def FileMetaDataBuilder_return_slot_def
      FileSerializer_Close_def close_last_row_group_def WriteMetaData_def FileSerializer_WriteMetaData_def
      FileMetaDataBuilder_Finish_def Sink_Tell_def Sink_Close_def
      check_open_column_def RowGroupSerializer_CheckRowsWritten_def
      RowGroupMetaDataBuilder_set_num_rows_def RowGroupMetaDataBuilder_Finish_def
      ColumnWriter_rows_written_def ColumnWriter_Close_def
      RowGroupWriter_Close_def RowGroupSerializer_Close_def RowGroupWriter_num_rows_def
      RowGroupSerializer_num_rows_def sample_serialize_def uint32_bytes_def Let_def)
  have public: "ParquetFileWriter_Close sample_serialize \<lparr>pfw_contents = Some (snd two_row_groups_written)\<rparr>
       = (None, \<lparr>pfw_contents = None\<rparr>)"
    using closed
    by (simp add: ParquetFileWriter_Close_def two_row_groups_def written FileSerializer_destructor_def
        FileSerializer_Close_def try_catch_all_def)
  have null: "ParquetFileWriter_num_rows \<lparr>pfw_contents = None\<rparr> = Inl NullDereference"
    by (simp add: ParquetFileWriter_num_rows_def)
  from append public null show ?thesis
    by (simp add: closed written FileSerializer_num_rows_def FileSerializer_num_row_groups_def)
qed

text \<open>
  C4 (as amended). Opening a file on an empty sink writes the 4-byte magic marker. Closing
  an open file in plain mode appends to the sink exactly the serialized footer, a 4-byte
  length field, and the 4-byte magic marker. The length field holds, least significant
  byte first, the difference of the sink positions after and before the footer write
  modulo \<open>2 ^ 32\<close>, which is that difference whenever the footer is shorter than
  \<open>2 ^ 32\<close> bytes.
\<close>

theorem plain_file_layout:
  "(sink_data sink = [] \<and> FileSerializer_Make sink n kv = (None, fs0)
      \<longrightarrow> sink_data (fs_sink fs0) = PARQUET_MAGIC \<and> length PARQUET_MAGIC = 4)
   \<and> (fs_class fs = FileSerializer_class \<and> fs_is_open fs
        \<and> FileSerializer_Close serialize fs = (None, fs')
      \<longrightarrow> (let footer = serialize (FileMetaDataBuilder_Finish (fs_metadata fs'));
               before = Sink_Tell (fs_sink fs);
               after = before + int (length footer);
               metadata_len = (word_of_int after - word_of_int before :: u32)
           in sink_data (fs_sink fs')
                = sink_data (fs_sink fs) @ footer @ uint32_bytes metadata_len @ PARQUET_MAGIC
            \<and> length (uint32_bytes metadata_len) = 4
            \<and> uint metadata_len = (after - before) mod 2 ^ 32
            \<and> uint metadata_len
                = uint (uint32_bytes metadata_len ! 0) + 256 * uint (uint32_bytes metadata_len ! 1)
                  + 65536 * uint (uint32_bytes metadata_len ! 2)
                  + 16777216 * uint (uint32_bytes metadata_len ! 3)
            \<and> (length footer < 2 ^ 32 \<longrightarrow> uint metadata_len = after - before)))"
proof (intro conjI impI)
  assume "sink_data sink = [] \<and> FileSerializer_Make sink n kv = (None, fs0)"
  then have empty: "sink_data sink = []" and made: "FileSerializer_Make sink n kv = (None, fs0)"
    by simp_all
  from made obtain s' where "fs0 = \<lparr>fs_class = FileSerializer_class, fs_sink = sink, fs_is_open = True,
        fs_num_row_groups = 0, fs_num_rows = 0,
        fs_metadata = FileMetaDataBuilder_Make n kv,
        fs_row_group_writer = None, fs_old_file_meta = None\<rparr>\<lparr>fs_sink := s'\<rparr>"
    and "sink_data s' = sink_data sink @ PARQUET_MAGIC"
    unfolding FileSerializer_Make_def FileSerializer_StartFile_def
    by (rule sink_write_NoneE) simp
  with empty show "sink_data (fs_sink fs0) = PARQUET_MAGIC" by simp
next
  show "length PARQUET_MAGIC = 4" by (simp add: PARQUET_MAGIC_def)
next
  assume "fs_class fs = FileSerializer_class \<and> fs_is_open fs
        \<and> FileSerializer_Close serialize fs = (None, fs')"
  then have plain: "fs_class fs = FileSerializer_class" and opened: "fs_is_open fs"
    and closed: "FileSerializer_Close serialize fs = (None, fs')"
    by simp_all
  from opened closed obtain fs1 fs2 where
    1: "close_last_row_group fs = (None, fs1)"
    and 2: "WriteMetaData serialize (reset_row_group_writer None fs1) = (None, fs2)"
    and 3: "fs' = fs2\<lparr>fs_sink := (fs_sink fs2)\<lparr>sink_closed := True\<rparr>, fs_is_open := False\<rparr>"
    by (rule FileSerializer_Close_NoneE)
  let ?fs1 = "reset_row_group_writer None fs1"
  have "fs_class ?fs1 = FileSerializer_class"
    using plain close_last_row_group_keeps(2) [OF 1] by (simp add: reset_row_group_writer_keeps)
  with 2 have "FileSerializer_WriteMetaData serialize ?fs1 = (None, fs2)"
    by (simp add: plain_WriteMetaData)
  then obtain s' where 4: "fs2 = ?fs1\<lparr>fs_sink := s'\<rparr>"
    and 5: "sink_data s' = sink_data (fs_sink ?fs1) @ serialize (FileMetaDataBuilder_Finish (fs_metadata ?fs1))
             @ uint32_bytes (word_of_nat (length (serialize (FileMetaDataBuilder_Finish (fs_metadata ?fs1)))))
             @ PARQUET_MAGIC"
    by (rule FileSerializer_WriteMetaData_NoneE)
  have metadata: "fs_metadata fs' = fs_metadata ?fs1" using 3 4 by simp
  have sink: "fs_sink ?fs1 = fs_sink fs"
    using close_last_row_group_keeps(1) [OF 1] by (simp add: reset_row_group_writer_keeps)
  let ?footer = "serialize (FileMetaDataBuilder_Finish (fs_metadata fs'))"
  let ?len = "word_of_nat (length ?footer) :: u32"
  have data: "sink_data (fs_sink fs') = sink_data (fs_sink fs) @ ?footer @ uint32_bytes ?len @ PARQUET_MAGIC"
    using 3 4 5 sink metadata by simp
  have len: "(word_of_int (Sink_Tell (fs_sink fs) + int (length ?footer)) - word_of_int (Sink_Tell (fs_sink fs)) :: u32)
      = ?len"
    by simp
  have decoded: "uint ?len = int (length ?footer) mod 2 ^ 32"
    by (rule uint_word_of_nat_32)
  have exact: "length ?footer < 2 ^ 32 \<longrightarrow> uint ?len = int (length ?footer)"
    using decoded by simp
  show "let footer = serialize (FileMetaDataBuilder_Finish (fs_metadata fs'));
               before = Sink_Tell (fs_sink fs);
               after = before + int (length footer);
               metadata_len = (word_of_int after - word_of_int before :: u32)
           in sink_data (fs_sink fs')
                = sink_data (fs_sink fs) @ footer @ uint32_bytes metadata_len @ PARQUET_MAGIC
            \<and> length (uint32_bytes metadata_len) = 4
            \<and> uint metadata_len = (after - before) mod 2 ^ 32
            \<and> uint metadata_len
                = uint (uint32_bytes metadata_len ! 0) + 256 * uint (uint32_bytes metadata_len ! 1)
                  + 65536 * uint (uint32_bytes metadata_len ! 2)
                  + 16777216 * uint (uint32_bytes metadata_len ! 3)
            \<and> (length footer < 2 ^ 32 \<longrightarrow> uint metadata_len = after - before)"
    unfolding Let_def len
    using data decoded exact uint32_bytes_value [of ?len] by (simp add: uint32_bytes_length)
qed


lemma empty_file_eq:
  "empty_file =
     \<lparr>fs_class = FileSerializer_class,
      fs_sink = \<lparr>sink_data = PARQUET_MAGIC, sink_closed = False, sink_room = None\<rparr>,
      fs_is_open = True, fs_num_row_groups = 0, fs_num_rows = 0,
      fs_metadata = \<lparr>fmb_num_columns = 1, fmb_key_value_metadata = None, fmb_row_groups = []\<rparr>,
      fs_row_group_writer = None, fs_old_file_meta = None\<rparr>"
  by (simp add: empty_file_def FileSerializer_Make_def FileSerializer_StartFile_def sink_write_def
      Sink_Write_def new_sink_def FileMetaDataBuilder_Make_def)

lemma file_on_full_sink_eq:
  "file_on_full_sink =
     \<lparr>fs_class = FileSerializer_class,
      fs_sink = \<lparr>sink_data = PARQUET_MAGIC, sink_closed = False, sink_room = Some 0\<rparr>,
      fs_is_open = True, fs_num_row_groups = 0, fs_num_rows = 0,
      fs_metadata = \<lparr>fmb_num_columns = 1, fmb_key_value_metadata = None, fmb_row_groups = []\<rparr>,
      fs_row_group_writer = None, fs_old_file_meta = None\<rparr>"
  by (simp add: file_on_full_sink_def FileSerializer_Make_def FileSerializer_StartFile_def sink_write_def
      Sink_Write_def FileMetaDataBuilder_Make_def PARQUET_MAGIC_def)

lemma Close_empty_file:
  "FileSerializer_Close sample_serialize empty_file =
     (None, empty_file
        \<lparr>fs_sink := \<lparr>sink_data = PARQUET_MAGIC @ [0] @ [1, 0, 0, 0] @ PARQUET_MAGIC,
                      sink_closed = True, sink_room = None\<rparr>,
         fs_is_open := False\<rparr>)"
  by (simp add: empty_file_eq FileSerializer_Close_def close_last_row_group_def
      reset_row_group_writer_def WriteMetaData_def FileSerializer_WriteMetaData_def
      FileMetaDataBuilder_Finish_def sample_serialize_def sink_write_def Sink_Write_def Sink_Tell_def
      Sink_Close_def uint32_bytes_def Let_def)

theorem plain_file_layout_witness:
  "sink_data new_sink = [] \<and> FileSerializer_Make new_sink 1 None = (None, empty_file)
   \<and> sink_data (fs_sink empty_file) = PARQUET_MAGIC
   \<and> fs_class empty_file = FileSerializer_class \<and> fs_is_open empty_file
   \<and> fst (FileSerializer_Close sample_serialize empty_file) = None
   \<and> sample_serialize (FileMetaDataBuilder_Finish
         (fs_metadata (snd (FileSerializer_Close sample_serialize empty_file)))) = [0]
   \<and> sink_data (fs_sink (snd (FileSerializer_Close sample_serialize empty_file)))
       = PARQUET_MAGIC @ [0] @ [1, 0, 0, 0] @ PARQUET_MAGIC"
proof -
  let ?fs' = "snd (FileSerializer_Close sample_serialize empty_file)"
  have empty: "sink_data new_sink = []" by (simp add: new_sink_def)
  have made: "FileSerializer_Make new_sink 1 None = (None, empty_file)"
    by (simp add: empty_file_def FileSerializer_Make_def FileSerializer_StartFile_def sink_write_def
      Sink_Write_def new_sink_def)
  have plain: "fs_class empty_file = FileSerializer_class" and opened: "fs_is_open empty_file"
    by (simp_all add: empty_file_eq)
  have returns: "fst (FileSerializer_Close sample_serialize empty_file) = None"
    by (simp add: Close_empty_file)
  then have closed: "FileSerializer_Close sample_serialize empty_file = (None, ?fs')"
    by (simp add: prod_eq_iff)
  note layout = plain_file_layout [of new_sink 1 None empty_file empty_file sample_serialize ?fs']
  from layout empty made have magic: "sink_data (fs_sink empty_file) = PARQUET_MAGIC"
    by blast
  have footer: "sample_serialize (FileMetaDataBuilder_Finish (fs_metadata ?fs')) = [0]"
    unfolding Close_empty_file
    by (simp add: empty_file_eq FileMetaDataBuilder_Finish_def sample_serialize_def)
  note after_close = mp [OF conjunct2 [OF layout] conjI [OF plain conjI [OF opened closed]]]
  have "sink_data (fs_sink ?fs') = PARQUET_MAGIC @ [0] @ [1, 0, 0, 0] @ PARQUET_MAGIC"
    using conjunct1 [OF after_close [unfolded Let_def]]
    by (simp add: footer magic uint32_bytes_def)
  with empty made magic plain opened returns footer show ?thesis by blast
qed

text \<open>
  C4 as stated fails when the footer takes \<open>2 ^ 32\<close> bytes: the sink position advances by
  4294967296 over the footer write, and the length field written behind it holds 0.
\<close>

theorem footer_of_4_GiB_has_length_field_0:
  "fst (FileSerializer_Close wide_serialize empty_file) = None
   \<and> sink_data (fs_sink (snd (FileSerializer_Close wide_serialize empty_file)))
       = PARQUET_MAGIC @ wide_serialize (FileMetaDataBuilder_Finish (fs_metadata empty_file))
           @ [0, 0, 0, 0] @ PARQUET_MAGIC
   \<and> int (length (wide_serialize (FileMetaDataBuilder_Finish (fs_metadata empty_file)))) = 4294967296
   \<and> uint32_bytes 0 = [0, 0, 0, 0]"
  by (simp add: empty_file_eq FileSerializer_Close_def close_last_row_group_def
      reset_row_group_writer_def WriteMetaData_def FileSerializer_WriteMetaData_def
      wide_serialize_def sink_write_def Sink_Write_def Sink_Tell_def
      Sink_Close_def uint32_bytes_def PARQUET_MAGIC_def Let_def)

















text \<open>
  C7. An exception raised by the footer write inside an explicit \<open>Close\<close> leaves
  \<open>FileSerializer::Close\<close> and \<open>ParquetFileWriter::Close\<close> and reaches the caller. The
  destructors of the serializer and of the file writer run the same \<open>Close\<close> and discard
  every exception it raises: they never propagate one.
\<close>

theorem Close_propagates_and_destructor_swallows:
  "(fs_is_open fs \<and> close_last_row_group fs = (None, fs1)
      \<and> WriteMetaData serialize (reset_row_group_writer None fs1) = (Some e, fs2)
      \<longrightarrow> FileSerializer_Close serialize fs = (Some e, fs2)
          \<and> ParquetFileWriter_Close serialize \<lparr>pfw_contents = Some fs\<rparr>
              = (Some e, \<lparr>pfw_contents = Some fs2\<rparr>))
   \<and> (fs_class fs = FileSerializer_class \<and> FileSerializer_Close serialize fs = (Some e, fs')
        \<and> e \<noteq> NullDereference
      \<longrightarrow> FileSerializer_destructor serialize fs = (None, fs'))
   \<and> fst (FileSerializer_destructor serialize fs) \<in> {None, Some NullDereference}
   \<and> fst (ParquetFileWriter_destructor serialize pw) \<in> {None, Some NullDereference}"
proof (intro conjI impI)
  assume "fs_is_open fs \<and> close_last_row_group fs = (None, fs1)
      \<and> WriteMetaData serialize (reset_row_group_writer None fs1) = (Some e, fs2)"
  then have raised: "FileSerializer_Close serialize fs = (Some e, fs2)"
    by (simp add: FileSerializer_Close_footer_raises)
  then show "FileSerializer_Close serialize fs = (Some e, fs2)" .
  from raised show "ParquetFileWriter_Close serialize \<lparr>pfw_contents = Some fs\<rparr>
              = (Some e, \<lparr>pfw_contents = Some fs2\<rparr>)"
    by (simp add: ParquetFileWriter_Close_def)
next
  assume "fs_class fs = FileSerializer_class \<and> FileSerializer_Close serialize fs = (Some e, fs')
        \<and> e \<noteq> NullDereference"
  then have plain: "fs_class fs = FileSerializer_class"
    and raised: "FileSerializer_Close serialize fs = (Some e, fs')"
    and exception: "e \<noteq> NullDereference"
    by simp_all
  from plain have "fs\<lparr>fs_class := FileSerializer_class\<rparr> = fs" by simp
  then show "FileSerializer_destructor serialize fs = (None, fs')"
    by (simp add: FileSerializer_destructor_def raised try_catch_all_swallows [OF exception])
next
  show "fst (FileSerializer_destructor serialize fs) \<in> {None, Some NullDereference}"
    unfolding FileSerializer_destructor_def by (rule try_catch_all_fst)
next
  obtain e w where closed: "try_catch_all (ParquetFileWriter_Close serialize pw) = (e, w)"
    by (cases "try_catch_all (ParquetFileWriter_Close serialize pw)")
  from try_catch_all_fst [of "ParquetFileWriter_Close serialize pw"] closed
  have e: "e = None \<or> e = Some NullDereference" by simp
  show "fst (ParquetFileWriter_destructor serialize pw) \<in> {None, Some NullDereference}"
  proof (cases "e = None \<and> pfw_contents w \<noteq> None")
    case True
    then obtain c where c: "pfw_contents w = Some c" by auto
    obtain e2 c2 where c2: "FileSerializer_destructor serialize c = (e2, c2)"
      by (cases "FileSerializer_destructor serialize c")
    with try_catch_all_fst [of "FileSerializer_Close serialize (c\<lparr>fs_class := FileSerializer_class\<rparr>)"]
    have "e2 = None \<or> e2 = Some NullDereference" by (simp add: FileSerializer_destructor_def)
    with True c c2 closed show ?thesis by (auto simp: ParquetFileWriter_destructor_def)
  next
    case False
    with e closed show ?thesis by (auto simp: ParquetFileWriter_destructor_def)
  qed
qed

theorem Close_propagates_and_destructor_swallows_witness:
  "fs_is_open file_on_full_sink
   \<and> fs_class file_on_full_sink = FileSerializer_class
   \<and> FileSerializer_Close sample_serialize file_on_full_sink = (Some IOError, file_on_full_sink)
   \<and> ParquetFileWriter_Close sample_serialize \<lparr>pfw_contents = Some file_on_full_sink\<rparr>
       = (Some IOError, \<lparr>pfw_contents = Some file_on_full_sink\<rparr>)
   \<and> FileSerializer_destructor sample_serialize file_on_full_sink = (None, file_on_full_sink)
   \<and> ParquetFileWriter_destructor sample_serialize \<lparr>pfw_contents = Some file_on_full_sink\<rparr>
       = (None, \<lparr>pfw_contents = None\<rparr>)"
proof -
  have opened: "fs_is_open file_on_full_sink" and plain: "fs_class file_on_full_sink = FileSerializer_class"
    by (simp_all add: file_on_full_sink_eq)
  have row_group: "close_last_row_group file_on_full_sink = (None, file_on_full_sink)"
    by (simp add: close_last_row_group_def file_on_full_sink_eq)
  have same: "reset_row_group_writer None file_on_full_sink = file_on_full_sink"
    by (simp add: reset_row_group_writer_def file_on_full_sink_eq)
  have footer: "WriteMetaData sample_serialize (reset_row_group_writer None file_on_full_sink)
      = (Some IOError, file_on_full_sink)"
    unfolding same
    by (simp add: file_on_full_sink_eq WriteMetaData_def FileSerializer_WriteMetaData_def
        FileMetaDataBuilder_Finish_def sample_serialize_def sink_write_def Sink_Write_def Let_def)
  note claim = Close_propagates_and_destructor_swallows
    [of file_on_full_sink file_on_full_sink sample_serialize IOError file_on_full_sink
        file_on_full_sink "\<lparr>pfw_contents = Some file_on_full_sink\<rparr>"]
  from claim opened row_group footer
  have raised: "FileSerializer_Close sample_serialize file_on_full_sink = (Some IOError, file_on_full_sink)"
    and raised': "ParquetFileWriter_Close sample_serialize \<lparr>pfw_contents = Some file_on_full_sink\<rparr>
       = (Some IOError, \<lparr>pfw_contents = Some file_on_full_sink\<rparr>)"
    by blast+
  from claim plain raised
  have swallowed: "FileSerializer_destructor sample_serialize file_on_full_sink = (None, file_on_full_sink)"
    by blast
  have "ParquetFileWriter_destructor sample_serialize \<lparr>pfw_contents = Some file_on_full_sink\<rparr>
       = (None, \<lparr>pfw_contents = None\<rparr>)"
    by (simp add: ParquetFileWriter_destructor_def raised' try_catch_all_def swallowed)
  with opened plain raised raised' swallowed show ?thesis by simp
qed

end
